theory Spec2Isabelle
  imports Complex_Main
begin

section \<open>Multimodal agent tools: data model\<close>

text \<open>
  The notebook \<^verbatim>\<open>tutorials/005-multimodal-agent.ipynb\<close> defines two tool classes,
  \<^verbatim>\<open>ImageCaptionTool\<close> and \<^verbatim>\<open>ObjectDetectionTool\<close>, and two standalone helpers,
  \<^verbatim>\<open>get_image_caption\<close> and \<^verbatim>\<open>detect_objects\<close>. Their bodies call PIL, torch and
  transformers. Those libraries are not part of the notebook, so each library call is a field
  of an environment record, and a library call that can raise returns a sum whose left side is
  the message of the exception.
\<close>

type_synonym token = nat
type_synonym tensor = "real list"
type_synonym box = "real \<times> real \<times> real \<times> real"

text \<open>A decoded image; \<^verbatim>\<open>image.size\<close> is the pair (width, height).\<close>

record image =
  image_size :: "nat \<times> nat"
  pixels :: "nat list"

text \<open>
  One element of the list returned by \<^verbatim>\<open>post_process_object_detection\<close>: a dict with
  the keys \<^verbatim>\<open>"scores"\<close>, \<^verbatim>\<open>"labels"\<close> and \<^verbatim>\<open>"boxes"\<close>.
\<close>

record results =
  scores :: "real list"
  labels :: "int list"
  boxes :: "box list"

text \<open>
  The objects returned by \<^verbatim>\<open>from_pretrained\<close>. \<open>blip_call\<close> and \<open>detr_call\<close> are the
  processors applied to an image, \<open>forward\<close> is \<^verbatim>\<open>model(**inputs)\<close>, \<open>id2label\<close> is
  \<^verbatim>\<open>model.config.id2label\<close>. A row of \<open>generate\<close> is a whole output sequence: the
  \<open>prompt_tokens\<close> tokens the decoder starts from, followed by the generated ones.
\<close>

record blip_processor =
  blip_call :: "image \<Rightarrow> tensor"
  decode :: "token list \<Rightarrow> bool \<Rightarrow> string"

record blip_model =
  generate :: "tensor \<Rightarrow> nat \<Rightarrow> token list list"
  prompt_tokens :: nat

record detr_processor =
  detr_call :: "image \<Rightarrow> tensor"
  post_process_object_detection :: "tensor \<Rightarrow> (nat \<times> nat) list \<Rightarrow> real \<Rightarrow> results list"

record detr_model =
  forward :: "tensor \<Rightarrow> tensor"
  id2label :: "int \<rightharpoonup> string"

text \<open>
  The library calls of the notebook. \<open>Image_open_convert p\<close> is
  \<^verbatim>\<open>Image.open(p).convert('RGB')\<close>; \<open>to_device d\<close> is \<^verbatim>\<open>.to(d)\<close>, which returns
  its receiver or raises (\<open>Some\<close> the message) when the device is not available;
  \<open>float_format\<close> is \<^verbatim>\<open>'{}'.format(float(score))\<close>.
\<close>

record env =
  Image_open_convert :: "string \<Rightarrow> string + image"
  BlipProcessor_from_pretrained :: "string \<Rightarrow> string + blip_processor"
  BlipForConditionalGeneration_from_pretrained :: "string \<Rightarrow> string + blip_model"
  DetrImageProcessor_from_pretrained :: "string \<Rightarrow> string + detr_processor"
  DetrForObjectDetection_from_pretrained :: "string \<Rightarrow> string + detr_model"
  to_device :: "string \<Rightarrow> string option"
  float_format :: "real \<Rightarrow> string"

text \<open>
  What a call can raise. The notebook names one exception, \<open>NotImplementedError\<close>; indexing
  and dict lookup raise \<open>IndexError\<close> and \<open>KeyError\<close>. The exceptions of the library calls
  are tagged by the statement that raised them and carry the library's message unchanged:
  \<open>DecodeError\<close> for \<^verbatim>\<open>Image.open(...).convert('RGB')\<close>, \<open>LoadError\<close> for
  \<^verbatim>\<open>from_pretrained\<close>, \<open>DeviceError\<close> for \<^verbatim>\<open>.to(device)\<close>.
\<close>

datatype error =
    DecodeError string
  | LoadError string
  | DeviceError string
  | NotImplementedError string
  | KeyError int
  | IndexError

text \<open>The tool object: the two attributes the classes declare.\<close>

record tool =
  name :: string
  description :: string

definition ImageCaptionTool :: tool where
  "ImageCaptionTool = \<lparr>name = ''Image Captioner'', description = ''Generate captions for images''\<rparr>"

definition ObjectDetectionTool :: tool where
  "ObjectDetectionTool =
     \<lparr>name = ''Object detector'',
      description =
        ''Use this tool when given the path to an image that you would like to detect objects. '' @
        ''It will return a list of all detected objects. Each element in the list in the format: '' @
        ''[x1, y1, x2, y2] class_name confidence_score.''\<rparr>"

section \<open>Python primitives\<close>

text \<open>\<^verbatim>\<open>int(x)\<close> of a float truncates towards zero.\<close>

definition py_int :: "real \<Rightarrow> int" where
  "py_int x = (if 0 \<le> x then \<lfloor>x\<rfloor> else \<lceil>x\<rceil>)"

text \<open>\<^verbatim>\<open>'{}'.format(i)\<close> of an int: its decimal digits, with a minus sign when negative.\<close>

definition digit_char :: "nat \<Rightarrow> char" where
  "digit_char d = ''0123456789'' ! d"

fun str_nat :: "nat \<Rightarrow> string" where
  "str_nat n = (if n < 10 then [digit_char n] else str_nat (n div 10) @ [digit_char (n mod 10)])"

declare str_nat.simps [simp del]

definition str_int :: "int \<Rightarrow> string" where
  "str_int i = (if i < 0 then CHR ''-'' # str_nat (nat (- i)) else str_nat (nat i))"

text \<open>\<^verbatim>\<open>'[{}, {}, {}, {}]'.format(int(box[0]), int(box[1]), int(box[2]), int(box[3]))\<close>\<close>

fun format_box :: "box \<Rightarrow> string" where
  "format_box (b0, b1, b2, b3) =
     ''['' @ str_int (py_int b0) @ '', '' @ str_int (py_int b1) @ '', '' @
     str_int (py_int b2) @ '', '' @ str_int (py_int b3) @ '']''"

section \<open>The captioning tool and helper\<close>

text \<open>
  \<^verbatim>\<open>ImageCaptionTool._run(self, img_path)\<close>. The method returns its result together with
  the tool object as the call leaves it.
\<close>

definition ImageCaptionTool_run :: "env \<Rightarrow> tool \<Rightarrow> string \<Rightarrow> (error + string) \<times> tool" where
  "ImageCaptionTool_run e self img_path =
     (case Image_open_convert e img_path of
        Inl msg \<Rightarrow> (Inl (DecodeError msg), self)
      | Inr img \<Rightarrow>
     let model_name = ''Salesforce/blip-image-captioning-large''; device = ''cuda'' in
     (case BlipProcessor_from_pretrained e model_name of
        Inl msg \<Rightarrow> (Inl (LoadError msg), self)
      | Inr processor \<Rightarrow>
     (case BlipForConditionalGeneration_from_pretrained e model_name of
        Inl msg \<Rightarrow> (Inl (LoadError msg), self)
      | Inr model \<Rightarrow>
     (case to_device e device of
        Some msg \<Rightarrow> (Inl (DeviceError msg), self)
      | None \<Rightarrow>
     let inputs = blip_call processor img in
     (case to_device e device of
        Some msg \<Rightarrow> (Inl (DeviceError msg), self)
      | None \<Rightarrow>
     let outputs = generate model inputs 20 in
     (case outputs of
        [] \<Rightarrow> (Inl IndexError, self)
      | out0 # _ \<Rightarrow>
     let caption = decode processor out0 True in
     (Inr caption, self)))))))"

text \<open>\<^verbatim>\<open>ImageCaptionTool._arun(self, query)\<close>\<close>

definition ImageCaptionTool_arun :: "tool \<Rightarrow> string \<Rightarrow> (error + string) \<times> tool" where
  "ImageCaptionTool_arun self query =
     (Inl (NotImplementedError ''This tool does not support async''), self)"

text \<open>\<^verbatim>\<open>get_image_caption(image_path)\<close>\<close>

definition get_image_caption :: "env \<Rightarrow> string \<Rightarrow> error + string" where
  "get_image_caption e image_path =
     (case Image_open_convert e image_path of
        Inl msg \<Rightarrow> Inl (DecodeError msg)
      | Inr img \<Rightarrow>
     let model_name = ''Salesforce/blip-image-captioning-large''; device = ''cuda'' in
     (case BlipProcessor_from_pretrained e model_name of
        Inl msg \<Rightarrow> Inl (LoadError msg)
      | Inr processor \<Rightarrow>
     (case BlipForConditionalGeneration_from_pretrained e model_name of
        Inl msg \<Rightarrow> Inl (LoadError msg)
      | Inr model \<Rightarrow>
     (case to_device e device of
        Some msg \<Rightarrow> Inl (DeviceError msg)
      | None \<Rightarrow>
     let inputs = blip_call processor img in
     (case to_device e device of
        Some msg \<Rightarrow> Inl (DeviceError msg)
      | None \<Rightarrow>
     let output = generate model inputs 20 in
     (case output of
        [] \<Rightarrow> Inl IndexError
      | out0 # _ \<Rightarrow>
     let caption = decode processor out0 True in
     Inr caption))))))"

section \<open>The detection tool and helper\<close>

text \<open>
  The \<^verbatim>\<open>for score, label, box in zip(...)\<close> loop of \<^verbatim>\<open>ObjectDetectionTool._run\<close>, with
  \<^verbatim>\<open>detections\<close> as the accumulator. Each round appends three pieces.
\<close>

fun ObjectDetectionTool_run_loop ::
  "env \<Rightarrow> detr_model \<Rightarrow> string \<Rightarrow> (real \<times> int \<times> box) list \<Rightarrow> error + string" where
  "ObjectDetectionTool_run_loop e model detections [] = Inr detections"
| "ObjectDetectionTool_run_loop e model detections ((score, label, box) # rest) =
     (let detections1 = detections @ format_box box in
      case id2label model label of
        None \<Rightarrow> Inl (KeyError label)
      | Some class_name \<Rightarrow>
          let detections2 = detections1 @ ('' '' @ class_name);
              detections3 = detections2 @ ('' '' @ float_format e score @ [CHR 0x0A])
          in ObjectDetectionTool_run_loop e model detections3 rest)"

text \<open>\<^verbatim>\<open>ObjectDetectionTool._run(self, img_path)\<close>\<close>

definition ObjectDetectionTool_run :: "env \<Rightarrow> tool \<Rightarrow> string \<Rightarrow> (error + string) \<times> tool" where
  "ObjectDetectionTool_run e self img_path =
     (case Image_open_convert e img_path of
        Inl msg \<Rightarrow> (Inl (DecodeError msg), self)
      | Inr img \<Rightarrow>
     (case DetrImageProcessor_from_pretrained e ''facebook/detr-resnet-50'' of
        Inl msg \<Rightarrow> (Inl (LoadError msg), self)
      | Inr processor \<Rightarrow>
     (case DetrForObjectDetection_from_pretrained e ''facebook/detr-resnet-50'' of
        Inl msg \<Rightarrow> (Inl (LoadError msg), self)
      | Inr model \<Rightarrow>
     let inputs = detr_call processor img;
         outputs = forward model inputs;
         target_sizes = [prod.swap (image_size img)] in
     (case post_process_object_detection processor outputs target_sizes (9 / 10) of
        [] \<Rightarrow> (Inl IndexError, self)
      | results # _ \<Rightarrow>
     (ObjectDetectionTool_run_loop e model ''''
        (zip (scores results) (zip (labels results) (boxes results))), self)))))"

text \<open>\<^verbatim>\<open>ObjectDetectionTool._arun(self, query)\<close>\<close>

definition ObjectDetectionTool_arun :: "tool \<Rightarrow> string \<Rightarrow> (error + string) \<times> tool" where
  "ObjectDetectionTool_arun self query =
     (Inl (NotImplementedError ''This tool does not support async''), self)"

text \<open>The loop of \<^verbatim>\<open>detect_objects\<close>.\<close>

fun detect_objects_loop ::
  "env \<Rightarrow> detr_model \<Rightarrow> string \<Rightarrow> (real \<times> int \<times> box) list \<Rightarrow> error + string" where
  "detect_objects_loop e model detections [] = Inr detections"
| "detect_objects_loop e model detections ((score, label, box) # rest) =
     (let detections1 = detections @ format_box box in
      case id2label model label of
        None \<Rightarrow> Inl (KeyError label)
      | Some class_name \<Rightarrow>
          let detections2 = detections1 @ ('' '' @ class_name);
              detections3 = detections2 @ ('' '' @ float_format e score @ [CHR 0x0A])
          in detect_objects_loop e model detections3 rest)"

text \<open>\<^verbatim>\<open>detect_objects(image_path)\<close>\<close>

definition detect_objects :: "env \<Rightarrow> string \<Rightarrow> error + string" where
  "detect_objects e image_path =
     (case Image_open_convert e image_path of
        Inl msg \<Rightarrow> Inl (DecodeError msg)
      | Inr img \<Rightarrow>
     (case DetrImageProcessor_from_pretrained e ''facebook/detr-resnet-50'' of
        Inl msg \<Rightarrow> Inl (LoadError msg)
      | Inr processor \<Rightarrow>
     (case DetrForObjectDetection_from_pretrained e ''facebook/detr-resnet-50'' of
        Inl msg \<Rightarrow> Inl (LoadError msg)
      | Inr model \<Rightarrow>
     let inputs = detr_call processor img;
         outputs = forward model inputs;
         target_sizes = [prod.swap (image_size img)] in
     (case post_process_object_detection processor outputs target_sizes (9 / 10) of
        [] \<Rightarrow> Inl IndexError
      | results # _ \<Rightarrow>
     detect_objects_loop e model ''''
        (zip (scores results) (zip (labels results) (boxes results)))))))"

section \<open>The output format and the contracts of the library calls\<close>

text \<open>
  The line format of the specification, \<^verbatim>\<open>[x1, y1, x2, y2] label score\<close>: four integers,
  the class name and the rendered score.
\<close>

definition detection_format :: "int \<Rightarrow> int \<Rightarrow> int \<Rightarrow> int \<Rightarrow> string \<Rightarrow> string \<Rightarrow> string" where
  "detection_format x1 y1 x2 y2 label score =
     ''['' @ str_int x1 @ '', '' @ str_int y1 @ '', '' @ str_int x2 @ '', '' @ str_int y2 @
     ''] '' @ label @ '' '' @ score"

text \<open>
  The line of one (score, label, box) triple in that format, without its newline. A label
  outside \<open>id2label\<close> has no line (the loops raise \<open>KeyError\<close> there); the empty class name
  stands in for it.
\<close>

fun detection_line :: "env \<Rightarrow> detr_model \<Rightarrow> real \<times> int \<times> box \<Rightarrow> string" where
  "detection_line e m (score, label, (b0, b1, b2, b3)) =
     detection_format (py_int b0) (py_int b1) (py_int b2) (py_int b3)
       (case id2label m label of Some class_name \<Rightarrow> class_name | None \<Rightarrow> [])
       (float_format e score)"

text \<open>The lines of a text: the pieces ended by a newline, and a last unterminated piece if any.\<close>

fun split_lines :: "string \<Rightarrow> string \<Rightarrow> string list" where
  "split_lines cur [] = (if cur = [] then [] else [cur])"
| "split_lines cur (c # cs) =
     (if c = CHR 0x0A then cur # split_lines [] cs else split_lines (cur @ [c]) cs)"

definition lines_of :: "string \<Rightarrow> string list" where
  "lines_of txt = split_lines [] txt"

text \<open>
  What the notebook relies on from transformers. \<^verbatim>\<open>post_process_object_detection\<close> keeps
  the candidates whose score is above its \<^verbatim>\<open>threshold\<close> argument; \<^verbatim>\<open>generate\<close> appends at
  most \<^verbatim>\<open>max_new_tokens\<close> tokens to the decoder's prompt.
\<close>

definition threshold_respected :: "detr_processor \<Rightarrow> bool" where
  "threshold_respected pr \<longleftrightarrow>
     (\<forall>outs sizes t r. r \<in> set (post_process_object_detection pr outs sizes t) \<longrightarrow>
        (\<forall>s\<in>set (scores r). t < s))"

definition budget_respected :: "blip_model \<Rightarrow> bool" where
  "budget_respected m \<longleftrightarrow>
     (\<forall>inp n row. row \<in> set (generate m inp n) \<longrightarrow> length row \<le> prompt_tokens m + n)"

section \<open>Concrete environments\<close>

text \<open>
  A small environment on which the theorems below are instantiated: one image file, a detector
  with three candidates of which two score above 0.9, and a captioner that emits three words
  and an end token after its start token.
\<close>

definition demo_image :: image where
  "demo_image = \<lparr>image_size = (640, 480), pixels = [0, 128, 255]\<rparr>"

definition demo_candidates :: "(real \<times> int \<times> box) list" where
  "demo_candidates =
     [(998 / 1000, 3, (127 / 10, 303 / 10, 2009 / 10, 180)),
      (42 / 100, 1, (0, 0, 10, 10)),
      (95 / 100, 17, (- (1 / 2), 5, 101 / 2, 60))]"

definition demo_detr_processor :: detr_processor where
  "demo_detr_processor =
     \<lparr>detr_call = (\<lambda>img. map real (pixels img)),
      post_process_object_detection = (\<lambda>outs sizes t.
        [\<lparr>scores = map fst (filter (\<lambda>c. t < fst c) demo_candidates),
          labels = map (\<lambda>c. fst (snd c)) (filter (\<lambda>c. t < fst c) demo_candidates),
          boxes = map (\<lambda>c. snd (snd c)) (filter (\<lambda>c. t < fst c) demo_candidates)\<rparr>])\<rparr>"

definition demo_detr_model :: detr_model where
  "demo_detr_model =
     \<lparr>forward = (\<lambda>x. x),
      id2label = [1 \<mapsto> ''person'', 3 \<mapsto> ''car'', 17 \<mapsto> ''cat'']\<rparr>"

definition demo_float_format :: "real \<Rightarrow> string" where
  "demo_float_format r =
     (if r = 998 / 1000 then ''0.998'' else if r = 95 / 100 then ''0.95'' else ''0.0'')"

definition demo_special :: "token \<Rightarrow> bool" where
  "demo_special t \<longleftrightarrow> t = 30522 \<or> t = 102"

definition demo_word :: "token \<Rightarrow> string" where
  "demo_word t =
     (if t = 30522 then ''[DEC]'' else if t = 102 then ''[SEP]''
      else if t = 3765 then ''cars'' else if t = 1999 then '' in''
      else if t = 4026 then '' traffic'' else ''?'')"

definition demo_blip_processor :: blip_processor where
  "demo_blip_processor =
     \<lparr>blip_call = (\<lambda>img. map real (pixels img)),
      decode = (\<lambda>toks skip.
        concat (map demo_word (filter (\<lambda>t. \<not> (skip \<and> demo_special t)) toks)))\<rparr>"

definition demo_blip_model :: blip_model where
  "demo_blip_model =
     \<lparr>generate = (\<lambda>inp n. [take (1 + n) [30522, 3765, 1999, 4026, 102]]),
      prompt_tokens = 1\<rparr>"

definition demo_env :: env where
  "demo_env =
     \<lparr>Image_open_convert =
        (\<lambda>p. if p = ''traffic.jpg'' then Inr demo_image else Inl ''No such file or directory''),
      BlipProcessor_from_pretrained = (\<lambda>n. Inr demo_blip_processor),
      BlipForConditionalGeneration_from_pretrained = (\<lambda>n. Inr demo_blip_model),
      DetrImageProcessor_from_pretrained = (\<lambda>n. Inr demo_detr_processor),
      DetrForObjectDetection_from_pretrained = (\<lambda>n. Inr demo_detr_model),
      to_device = (\<lambda>d. None),
      float_format = demo_float_format\<rparr>"

text \<open>The same environment with the model hub out of reach.\<close>

definition offline_env :: env where
  "offline_env =
     demo_env
       \<lparr>BlipProcessor_from_pretrained := (\<lambda>n. Inl ''Connection error''),
        BlipForConditionalGeneration_from_pretrained := (\<lambda>n. Inl ''Connection error''),
        DetrImageProcessor_from_pretrained := (\<lambda>n. Inl ''Connection error''),
        DetrForObjectDetection_from_pretrained := (\<lambda>n. Inl ''Connection error'')\<rparr>"

text \<open>The same environment with a captioner that emits the end token right after its start token.\<close>

definition silent_env :: env where
  "silent_env =
     demo_env
       \<lparr>BlipForConditionalGeneration_from_pretrained :=
          (\<lambda>n. Inr \<lparr>generate = (\<lambda>inp n. [[30522, 102]]), prompt_tokens = 1\<rparr>)\<rparr>"

text \<open>What the demo detector keeps at threshold 0.9.\<close>

definition demo_results :: results where
  "demo_results =
     \<lparr>scores = [998 / 1000, 95 / 100], labels = [3, 17],
      boxes = [(127 / 10, 303 / 10, 2009 / 10, 180), (- (1 / 2), 5, 101 / 2, 60)]\<rparr>"

text \<open>The same environment with a detector that finds nothing.\<close>

definition blank_detr_processor :: detr_processor where
  "blank_detr_processor =
     \<lparr>detr_call = (\<lambda>img. map real (pixels img)),
      post_process_object_detection =
        (\<lambda>outs sizes t. [\<lparr>scores = [], labels = [], boxes = []\<rparr>])\<rparr>"

definition blank_env :: env where
  "blank_env = demo_env\<lparr>DetrImageProcessor_from_pretrained := (\<lambda>n. Inr blank_detr_processor)\<rparr>"

text \<open>The same environment with processors that load and models that do not.\<close>

definition model_offline_env :: env where
  "model_offline_env =
     demo_env
       \<lparr>BlipForConditionalGeneration_from_pretrained := (\<lambda>n. Inl ''Connection error''),
        DetrForObjectDetection_from_pretrained := (\<lambda>n. Inl ''Connection error'')\<rparr>"

text \<open>The same environment without the device.\<close>

definition cpu_only_env :: env where
  "cpu_only_env = demo_env\<lparr>to_device := (\<lambda>d. Some ''Torch not compiled with CUDA enabled'')\<rparr>"

text \<open>The same environment with library calls that return empty batches.\<close>

definition norows_env :: env where
  "norows_env =
     demo_env
       \<lparr>BlipForConditionalGeneration_from_pretrained :=
          (\<lambda>n. Inr \<lparr>generate = (\<lambda>inp n. []), prompt_tokens = 1\<rparr>),
        DetrImageProcessor_from_pretrained :=
          (\<lambda>n. Inr \<lparr>detr_call = (\<lambda>img. map real (pixels img)),
                    post_process_object_detection = (\<lambda>outs sizes t. [])\<rparr>)\<rparr>"

text \<open>The same environment with a detection model whose label table lacks class 17.\<close>

definition unlabelled_detr_model :: detr_model where
  "unlabelled_detr_model = \<lparr>forward = (\<lambda>x. x), id2label = [3 \<mapsto> ''car'']\<rparr>"

definition unlabelled_env :: env where
  "unlabelled_env =
     demo_env\<lparr>DetrForObjectDetection_from_pretrained := (\<lambda>n. Inr unlabelled_detr_model)\<rparr>"

section \<open>Properties of the Python primitives and of the loops\<close>

lemma digit_char_not_newline: "d < 10 \<Longrightarrow> CHR 0x0A \<noteq> digit_char d"
proof -
  assume "d < 10"
  then have "digit_char d \<in> set ''0123456789''"
    unfolding digit_char_def by (intro nth_mem) simp
  then show ?thesis by auto
qed

lemma str_nat_no_newline: "CHR 0x0A \<notin> set (str_nat n)"
proof (induction n rule: str_nat.induct)
  case (1 n)
  show ?case
  proof (cases "n < 10")
    case True
    then show ?thesis by (simp add: str_nat.simps [of n] digit_char_not_newline)
  next
    case False
    then have "CHR 0x0A \<notin> set (str_nat (n div 10))" using 1 by simp
    moreover have "CHR 0x0A \<noteq> digit_char (n mod 10)" by (rule digit_char_not_newline) simp
    ultimately show ?thesis using False by (simp add: str_nat.simps [of n])
  qed
qed

lemma str_int_no_newline: "CHR 0x0A \<notin> set (str_int i)"
  by (simp add: str_int_def str_nat_no_newline)

lemma split_lines_line:
  "CHR 0x0A \<notin> set l \<Longrightarrow> split_lines cur (l @ CHR 0x0A # rest) = (cur @ l) # split_lines [] rest"
  by (induction l arbitrary: cur) auto

lemma lines_of_concat:
  "\<forall>l\<in>set ls. CHR 0x0A \<notin> set l \<Longrightarrow> lines_of (concat (map (\<lambda>l. l @ [CHR 0x0A]) ls)) = ls"
  unfolding lines_of_def
  by (induction ls) (simp_all add: split_lines_line)

lemma detection_format_no_newline:
  "CHR 0x0A \<notin> set label \<Longrightarrow> CHR 0x0A \<notin> set score \<Longrightarrow>
   CHR 0x0A \<notin> set (detection_format x1 y1 x2 y2 label score)"
  by (simp add: detection_format_def str_int_no_newline)

lemma format_box_detection_format:
  "format_box (b0, b1, b2, b3) @ '' '' @ c @ '' '' @ f =
   detection_format (py_int b0) (py_int b1) (py_int b2) (py_int b3) c f"
  by (simp add: detection_format_def)

lemma run_loop_eq_detect_loop:
  "ObjectDetectionTool_run_loop e m acc zs = detect_objects_loop e m acc zs"
  by (induction zs arbitrary: acc) (auto split: option.splits)

lemma detect_loop_known:
  "\<forall>z\<in>set zs. id2label m (fst (snd z)) \<noteq> None \<Longrightarrow>
   detect_objects_loop e m acc zs =
     Inr (acc @ concat (map (\<lambda>z. detection_line e m z @ [CHR 0x0A]) zs))"
proof (induction zs arbitrary: acc)
  case Nil
  then show ?case by simp
next
  case (Cons z zs)
  obtain s l b0 b1 b2 b3 where z: "z = (s, l, (b0, b1, b2, b3))" by (metis prod_cases3 prod_cases4)
  from Cons.prems obtain c where c: "id2label m l = Some c" by (auto simp: z)
  have rest: "\<forall>z\<in>set zs. id2label m (fst (snd z)) \<noteq> None" using Cons.prems by simp
  show ?case
    by (simp add: z c Cons.IH [OF rest] detection_format_def)
qed

lemma detect_loop_Inr:
  "detect_objects_loop e m acc zs = Inr txt \<Longrightarrow> \<forall>z\<in>set zs. id2label m (fst (snd z)) \<noteq> None"
proof (induction zs arbitrary: acc)
  case Nil
  then show ?case by simp
next
  case (Cons z zs)
  obtain s l b where z: "z = (s, l, b)" by (metis prod_cases3)
  show ?case using Cons
    by (auto simp: z Let_def split: option.splits)
qed

lemma detect_loop_Inl:
  "detect_objects_loop e m acc zs = Inl err \<Longrightarrow>
   \<exists>z\<in>set zs. err = KeyError (fst (snd z)) \<and> id2label m (fst (snd z)) = None"
proof (induction zs arbitrary: acc)
  case Nil
  then show ?case by simp
next
  case (Cons z zs)
  obtain s l b where z: "z = (s, l, b)" by (metis prod_cases3)
  show ?case using Cons
    by (auto simp: z Let_def split: option.splits)
qed

lemma ImageCaptionTool_run_fst: "fst (ImageCaptionTool_run e t p) = get_image_caption e p"
  by (simp add: ImageCaptionTool_run_def get_image_caption_def Let_def
      split: sum.splits option.splits list.splits)

lemma ObjectDetectionTool_run_fst: "fst (ObjectDetectionTool_run e t p) = detect_objects e p"
  by (simp add: ObjectDetectionTool_run_def detect_objects_def run_loop_eq_detect_loop
      split: sum.splits list.splits)

lemma ImageCaptionTool_run_self: "snd (ImageCaptionTool_run e t p) = t"
  by (simp add: ImageCaptionTool_run_def Let_def split: sum.splits option.splits list.splits)

lemma ObjectDetectionTool_run_self: "snd (ObjectDetectionTool_run e t p) = t"
  by (simp add: ObjectDetectionTool_run_def split: sum.splits list.splits)

lemma ImageCaptionTool_run_any_self:
  "fst (ImageCaptionTool_run e t p) = fst (ImageCaptionTool_run e t' p)"
  by (simp add: ImageCaptionTool_run_def Let_def split: sum.splits option.splits list.splits)

lemma ObjectDetectionTool_run_any_self:
  "fst (ObjectDetectionTool_run e t p) = fst (ObjectDetectionTool_run e t' p)"
  by (simp add: ObjectDetectionTool_run_def split: sum.splits list.splits)

lemma detect_objects_steps:
  assumes "Image_open_convert e p = Inr img"
    and "DetrImageProcessor_from_pretrained e ''facebook/detr-resnet-50'' = Inr pr"
    and "DetrForObjectDetection_from_pretrained e ''facebook/detr-resnet-50'' = Inr m"
    and "post_process_object_detection pr (forward m (detr_call pr img))
           [prod.swap (image_size img)] (9 / 10) = r # rs"
  shows "detect_objects e p =
           detect_objects_loop e m '''' (zip (scores r) (zip (labels r) (boxes r)))"
  using assms by (simp add: detect_objects_def)

lemma ObjectDetectionTool_run_steps:
  assumes "Image_open_convert e p = Inr img"
    and "DetrImageProcessor_from_pretrained e ''facebook/detr-resnet-50'' = Inr pr"
    and "DetrForObjectDetection_from_pretrained e ''facebook/detr-resnet-50'' = Inr m"
    and "post_process_object_detection pr (forward m (detr_call pr img))
           [prod.swap (image_size img)] (9 / 10) = r # rs"
  shows "ObjectDetectionTool_run e t p =
           (detect_objects_loop e m '''' (zip (scores r) (zip (labels r) (boxes r))), t)"
  using assms by (simp add: ObjectDetectionTool_run_def run_loop_eq_detect_loop)

lemma detect_loop_text:
  assumes "detect_objects_loop e m acc zs = Inr txt"
  shows "txt = acc @ concat (map (\<lambda>z. detection_line e m z @ [CHR 0x0A]) zs)"
  using detect_loop_known [OF detect_loop_Inr [OF assms], of e acc] assms by simp

lemma demo_threshold_respected: "threshold_respected demo_detr_processor"
  by (auto simp: threshold_respected_def demo_detr_processor_def)

lemma demo_budget_respected: "budget_respected demo_blip_model"
  by (simp add: budget_respected_def demo_blip_model_def)

lemma get_image_caption_steps:
  assumes "Image_open_convert e p = Inr img"
    and "BlipProcessor_from_pretrained e ''Salesforce/blip-image-captioning-large'' = Inr pr"
    and "BlipForConditionalGeneration_from_pretrained e
           ''Salesforce/blip-image-captioning-large'' = Inr m"
    and "to_device e ''cuda'' = None"
    and "generate m (blip_call pr img) 20 = row # rows"
  shows "get_image_caption e p = Inr (decode pr row True) \<and>
         ImageCaptionTool_run e t p = (Inr (decode pr row True), t)"
  using assms by (simp add: get_image_caption_def ImageCaptionTool_run_def)

lemma detection_line_format:
  assumes "id2label m (fst (snd z)) \<noteq> None"
  shows "\<exists>x1 y1 x2 y2 c s. id2label m (fst (snd z)) = Some c \<and> s = fst z \<and>
           detection_line e m z = detection_format x1 y1 x2 y2 c (float_format e s)"
proof -
  obtain s l b0 b1 b2 b3 where z: "z = (s, l, (b0, b1, b2, b3))"
    by (metis prod_cases3 prod_cases4)
  from assms obtain c where "id2label m l = Some c" by (auto simp: z)
  then show ?thesis by (auto simp: z)
qed

lemma detection_line_no_newline:
  assumes "\<forall>c\<in>ran (id2label m). CHR 0x0A \<notin> set c"
    and "\<forall>s. CHR 0x0A \<notin> set (float_format e s)"
  shows "CHR 0x0A \<notin> set (detection_line e m z)"
proof -
  obtain s l b0 b1 b2 b3 where z: "z = (s, l, (b0, b1, b2, b3))"
    by (metis prod_cases3 prod_cases4)
  have "CHR 0x0A \<notin> set (case id2label m l of Some c \<Rightarrow> c | None \<Rightarrow> [])"
  proof (cases "id2label m l")
    case None
    then show ?thesis by simp
  next
    case (Some c)
    then have "c \<in> ran (id2label m)" by (rule ranI)
    then show ?thesis using assms(1) Some by simp
  qed
  then show ?thesis
    using assms(2) by (simp add: z detection_format_no_newline)
qed

lemma detect_loop_KeyError:
  "\<forall>z\<in>set pre. id2label m (fst (snd z)) \<noteq> None \<Longrightarrow> id2label m l = None \<Longrightarrow>
   detect_objects_loop e m acc (pre @ (s, l, b) # rest) = Inl (KeyError l)"
proof (induction pre arbitrary: acc)
  case Nil
  then show ?case by simp
next
  case (Cons z pre)
  obtain s' l' b' where z: "z = (s', l', b')" by (metis prod_cases3)
  from Cons.prems(1) obtain c where c: "id2label m l' = Some c" by (auto simp: z)
  have rest: "\<forall>z\<in>set pre. id2label m (fst (snd z)) \<noteq> None" using Cons.prems(1) by simp
  show ?case by (simp add: z c Cons.IH [OF rest Cons.prems(2)])
qed

lemma get_image_caption_DecodeError:
  "Image_open_convert e p = Inl msg \<Longrightarrow> get_image_caption e p = Inl (DecodeError msg)"
  by (simp add: get_image_caption_def)

lemma detect_objects_DecodeError:
  "Image_open_convert e p = Inl msg \<Longrightarrow> detect_objects e p = Inl (DecodeError msg)"
  by (simp add: detect_objects_def)

lemma get_image_caption_Inr:
  "get_image_caption e p = Inr c \<Longrightarrow>
   \<exists>i b m row rows. Image_open_convert e p = Inr i \<and>
     BlipProcessor_from_pretrained e ''Salesforce/blip-image-captioning-large'' = Inr b \<and>
     BlipForConditionalGeneration_from_pretrained e ''Salesforce/blip-image-captioning-large'' =
       Inr m \<and>
     to_device e ''cuda'' = None \<and>
     generate m (blip_call b i) 20 = row # rows \<and> c = decode b row True"
  by (auto simp: get_image_caption_def Let_def split: sum.splits option.splits list.splits)

lemma detect_objects_Inr:
  assumes "detect_objects e p = Inr d"
  shows "\<exists>i b m r rs. Image_open_convert e p = Inr i \<and>
     DetrImageProcessor_from_pretrained e ''facebook/detr-resnet-50'' = Inr b \<and>
     DetrForObjectDetection_from_pretrained e ''facebook/detr-resnet-50'' = Inr m \<and>
     post_process_object_detection b (forward m (detr_call b i))
       [prod.swap (image_size i)] (9 / 10) = r # rs \<and>
     (\<forall>z\<in>set (zip (scores r) (zip (labels r) (boxes r))). id2label m (fst (snd z)) \<noteq> None) \<and>
     d = concat (map (\<lambda>z. detection_line e m z @ [CHR 0x0A])
           (zip (scores r) (zip (labels r) (boxes r))))"
proof -
  from assms obtain i b m r rs where steps:
    "Image_open_convert e p = Inr i"
    "DetrImageProcessor_from_pretrained e ''facebook/detr-resnet-50'' = Inr b"
    "DetrForObjectDetection_from_pretrained e ''facebook/detr-resnet-50'' = Inr m"
    "post_process_object_detection b (forward m (detr_call b i))
       [prod.swap (image_size i)] (9 / 10) = r # rs"
    by (auto simp: detect_objects_def Let_def split: sum.splits list.splits)
  have loop: "detect_objects_loop e m '''' (zip (scores r) (zip (labels r) (boxes r))) = Inr d"
    using assms detect_objects_steps [OF steps] by simp
  show ?thesis
    using steps detect_loop_Inr [OF loop] detect_loop_text [OF loop] by auto
qed

lemma run_loop_float_format:
  "float_format e = float_format e' \<Longrightarrow>
   ObjectDetectionTool_run_loop e m acc zs = ObjectDetectionTool_run_loop e' m acc zs"
  by (induction zs arbitrary: acc) (auto split: option.splits)

lemma ImageCaptionTool_run_same_calls:
  assumes "Image_open_convert e p = Image_open_convert e' p"
    and "BlipProcessor_from_pretrained e ''Salesforce/blip-image-captioning-large'' =
         BlipProcessor_from_pretrained e' ''Salesforce/blip-image-captioning-large''"
    and "BlipForConditionalGeneration_from_pretrained e ''Salesforce/blip-image-captioning-large'' =
         BlipForConditionalGeneration_from_pretrained e' ''Salesforce/blip-image-captioning-large''"
    and "to_device e ''cuda'' = to_device e' ''cuda''"
  shows "fst (ImageCaptionTool_run e t p) = fst (ImageCaptionTool_run e' t' p)"
  unfolding ImageCaptionTool_run_fst using assms
  by (simp add: get_image_caption_def Let_def split: sum.splits option.splits list.splits)

lemma ObjectDetectionTool_run_same_calls:
  assumes "Image_open_convert e p = Image_open_convert e' p"
    and "DetrImageProcessor_from_pretrained e ''facebook/detr-resnet-50'' =
         DetrImageProcessor_from_pretrained e' ''facebook/detr-resnet-50''"
    and "DetrForObjectDetection_from_pretrained e ''facebook/detr-resnet-50'' =
         DetrForObjectDetection_from_pretrained e' ''facebook/detr-resnet-50''"
    and "float_format e = float_format e'"
  shows "fst (ObjectDetectionTool_run e t p) = fst (ObjectDetectionTool_run e' t' p)"
  using assms(1-3) run_loop_float_format [OF assms(4)]
  by (simp add: ObjectDetectionTool_run_def split: sum.splits list.splits)

section \<open>Facts about the concrete environments\<close>

lemma demo_steps:
  "Image_open_convert demo_env ''traffic.jpg'' = Inr demo_image"
  "DetrImageProcessor_from_pretrained demo_env n = Inr demo_detr_processor"
  "DetrForObjectDetection_from_pretrained demo_env n = Inr demo_detr_model"
  "BlipProcessor_from_pretrained demo_env n = Inr demo_blip_processor"
  "BlipForConditionalGeneration_from_pretrained demo_env n = Inr demo_blip_model"
  "to_device demo_env d = None"
  by (simp_all add: demo_env_def)

lemma demo_post_process:
  "post_process_object_detection demo_detr_processor outs sizes (9 / 10) = [demo_results]"
  by (simp add: demo_detr_processor_def demo_candidates_def demo_results_def)

lemma str_int_examples:
  "str_int 12 = ''12''" "str_int 30 = ''30''" "str_int 200 = ''200''" "str_int 180 = ''180''"
  "str_int 0 = ''0''" "str_int 5 = ''5''" "str_int 50 = ''50''" "str_int 60 = ''60''"
  by (simp_all add: str_int_def str_nat.simps digit_char_def)

lemma py_int_examples:
  "py_int (127 / 10) = 12" "py_int (303 / 10) = 30" "py_int (2009 / 10) = 200"
  "py_int 180 = 180" "py_int (- (1 / 2)) = 0" "py_int 5 = 5" "py_int (101 / 2) = 50"
  "py_int 60 = 60"
  by (simp_all add: py_int_def ceiling_eq_iff)

lemma demo_detect_objects:
  "detect_objects demo_env ''traffic.jpg'' =
     Inr (''[12, 30, 200, 180] car 0.998'' @ [CHR 0x0A] @ ''[0, 5, 50, 60] cat 0.95'' @ [CHR 0x0A])"
  unfolding detect_objects_steps [OF demo_steps(1) demo_steps(2) demo_steps(3) demo_post_process]
  by (simp add: demo_results_def demo_detr_model_def demo_env_def demo_float_format_def
      py_int_examples str_int_examples)

lemma blank_steps:
  "Image_open_convert blank_env ''traffic.jpg'' = Inr demo_image"
  "DetrImageProcessor_from_pretrained blank_env n = Inr blank_detr_processor"
  "DetrForObjectDetection_from_pretrained blank_env n = Inr demo_detr_model"
  by (simp_all add: blank_env_def demo_env_def)

lemma blank_post_process:
  "post_process_object_detection blank_detr_processor outs sizes t =
     [\<lparr>scores = [], labels = [], boxes = []\<rparr>]"
  by (simp add: blank_detr_processor_def)

lemma offline_steps:
  "Image_open_convert offline_env ''traffic.jpg'' = Inr demo_image"
  "BlipProcessor_from_pretrained offline_env n = Inl ''Connection error''"
  "DetrImageProcessor_from_pretrained offline_env n = Inl ''Connection error''"
  by (simp_all add: offline_env_def demo_env_def)

lemma demo_missing_file:
  "Image_open_convert demo_env ''missing.jpg'' = Inl ''No such file or directory''"
  by (simp add: demo_env_def)

lemma demo_labels_no_newline: "\<forall>c\<in>ran (id2label demo_detr_model). CHR 0x0A \<notin> set c"
  by (auto simp: demo_detr_model_def ran_def split: if_splits)

lemma demo_float_no_newline: "\<forall>s. CHR 0x0A \<notin> set (float_format demo_env s)"
  by (simp add: demo_env_def demo_float_format_def)

lemma demo_generate:
  "generate demo_blip_model inp 20 = [30522, 3765, 1999, 4026, 102] # []"
  by (simp add: demo_blip_model_def)

lemma demo_decode:
  "decode demo_blip_processor [30522, 3765, 1999, 4026, 102] True = ''cars in traffic''"
  by (simp add: demo_blip_processor_def demo_word_def demo_special_def)

lemma demo_decode_bound: "length (decode demo_blip_processor toks True) \<le> 8 * length toks"
  by (induction toks) (simp_all add: demo_blip_processor_def demo_word_def)

lemma model_offline_steps:
  "Image_open_convert model_offline_env ''traffic.jpg'' = Inr demo_image"
  "BlipProcessor_from_pretrained model_offline_env n = Inr demo_blip_processor"
  "BlipForConditionalGeneration_from_pretrained model_offline_env n = Inl ''Connection error''"
  "DetrImageProcessor_from_pretrained model_offline_env n = Inr demo_detr_processor"
  "DetrForObjectDetection_from_pretrained model_offline_env n = Inl ''Connection error''"
  by (simp_all add: model_offline_env_def demo_env_def)

lemma cpu_only_steps:
  "Image_open_convert cpu_only_env ''traffic.jpg'' = Inr demo_image"
  "BlipProcessor_from_pretrained cpu_only_env n = Inr demo_blip_processor"
  "BlipForConditionalGeneration_from_pretrained cpu_only_env n = Inr demo_blip_model"
  "to_device cpu_only_env d = Some ''Torch not compiled with CUDA enabled''"
  by (simp_all add: cpu_only_env_def demo_env_def)

lemma norows_steps:
  "Image_open_convert norows_env ''traffic.jpg'' = Inr demo_image"
  "BlipProcessor_from_pretrained norows_env n = Inr demo_blip_processor"
  "BlipForConditionalGeneration_from_pretrained norows_env n =
     Inr \<lparr>generate = (\<lambda>inp n. []), prompt_tokens = 1\<rparr>"
  "to_device norows_env d = None"
  "DetrImageProcessor_from_pretrained norows_env n =
     Inr \<lparr>detr_call = (\<lambda>img. map real (pixels img)),
          post_process_object_detection = (\<lambda>outs sizes t. [])\<rparr>"
  "DetrForObjectDetection_from_pretrained norows_env n = Inr demo_detr_model"
  by (simp_all add: norows_env_def demo_env_def)

lemma unlabelled_steps:
  "Image_open_convert unlabelled_env ''traffic.jpg'' = Inr demo_image"
  "DetrImageProcessor_from_pretrained unlabelled_env n = Inr demo_detr_processor"
  "DetrForObjectDetection_from_pretrained unlabelled_env n = Inr unlabelled_detr_model"
  by (simp_all add: unlabelled_env_def demo_env_def)

lemma demo_results_zip:
  "zip (scores demo_results) (zip (labels demo_results) (boxes demo_results)) =
     [(998 / 1000, 3, (127 / 10, 303 / 10, 2009 / 10, 180))] @
     (95 / 100, 17, (- (1 / 2), 5, 101 / 2, 60)) # []"
  by (simp add: demo_results_def)

lemma unlabelled_id2label:
  "\<forall>z\<in>set [(998 / 1000 :: real, 3 :: int, (127 / 10 :: real, 303 / 10 :: real, 2009 / 10 :: real, 180 :: real))].
     id2label unlabelled_detr_model (fst (snd z)) \<noteq> None"
  "id2label unlabelled_detr_model 17 = None"
  by (simp_all add: unlabelled_detr_model_def)

lemma silent_caption:
  "fst (ImageCaptionTool_run silent_env ImageCaptionTool ''traffic.jpg'') = Inr ''''"
  by (simp add: silent_env_def demo_env_def ImageCaptionTool_run_def demo_blip_processor_def
      demo_special_def)

section \<open>The detection wrapper\<close>

text \<open>
  Claim C1. Every detection in the text that \<^verbatim>\<open>ObjectDetectionTool._run\<close> or
  \<^verbatim>\<open>detect_objects\<close> returns has confidence at least 0.9. The wrappers do not filter:
  they pass \<^verbatim>\<open>threshold=0.9\<close> to \<^verbatim>\<open>post_process_object_detection\<close> and render
  every triple of its first result. So, for a processor that keeps only scores above its
  threshold argument, the returned text is the rendering of exactly the triples of that result,
  and each of them scores at least 0.9.
\<close>

theorem detections_meet_threshold:
  assumes "Image_open_convert e p = Inr img"
    and "DetrImageProcessor_from_pretrained e ''facebook/detr-resnet-50'' = Inr pr"
    and "DetrForObjectDetection_from_pretrained e ''facebook/detr-resnet-50'' = Inr m"
    and "post_process_object_detection pr (forward m (detr_call pr img))
           [prod.swap (image_size img)] (9 / 10) = r # rs"
    and "threshold_respected pr"
    and "detect_objects e p = Inr txt \<or> fst (ObjectDetectionTool_run e t p) = Inr txt"
  shows "txt = concat (map (\<lambda>z. detection_line e m z @ [CHR 0x0A])
                  (zip (scores r) (zip (labels r) (boxes r)))) \<and>
         (\<forall>z\<in>set (zip (scores r) (zip (labels r) (boxes r))). 9 / 10 \<le> fst z)"
proof
  have "detect_objects_loop e m '''' (zip (scores r) (zip (labels r) (boxes r))) = Inr txt"
    using assms(6) detect_objects_steps [OF assms(1-4)]
      ObjectDetectionTool_run_steps [OF assms(1-4), of t] by auto
  then show "txt = concat (map (\<lambda>z. detection_line e m z @ [CHR 0x0A])
                  (zip (scores r) (zip (labels r) (boxes r))))"
    using detect_loop_text by fastforce
next
  have "r \<in> set (post_process_object_detection pr (forward m (detr_call pr img))
           [prod.swap (image_size img)] (9 / 10))"
    using assms(4) by simp
  then have "\<forall>s\<in>set (scores r). 9 / 10 < s"
    using assms(5) unfolding threshold_respected_def by blast
  then show "\<forall>z\<in>set (zip (scores r) (zip (labels r) (boxes r))). 9 / 10 \<le> fst z"
    by (auto dest!: set_zip_leftD)
qed

theorem detections_meet_threshold_witness:
  "Image_open_convert demo_env ''traffic.jpg'' = Inr demo_image \<and>
   threshold_respected demo_detr_processor \<and>
   detect_objects demo_env ''traffic.jpg'' =
     Inr (''[12, 30, 200, 180] car 0.998'' @ [CHR 0x0A] @ ''[0, 5, 50, 60] cat 0.95'' @ [CHR 0x0A]) \<and>
   ''[12, 30, 200, 180] car 0.998'' @ [CHR 0x0A] @ ''[0, 5, 50, 60] cat 0.95'' @ [CHR 0x0A] =
     concat (map (\<lambda>z. detection_line demo_env demo_detr_model z @ [CHR 0x0A])
       (zip (scores demo_results) (zip (labels demo_results) (boxes demo_results)))) \<and>
   scores demo_results = [998 / 1000, 95 / 100] \<and>
   (9 / 10 :: real) \<le> 998 / 1000 \<and> (9 / 10 :: real) \<le> 95 / 100"
  using detections_meet_threshold [OF demo_steps(1) demo_steps(2) demo_steps(3)
      demo_post_process demo_threshold_respected disjI1 [OF demo_detect_objects]]
    demo_detect_objects demo_threshold_respected demo_steps(1)
  by (simp add: demo_results_def)

text \<open>
  Claim C2. Each line of the returned text has the format
  \<^verbatim>\<open>[x1, y1, x2, y2] label score\<close>: the text is a sequence of newline-terminated
  pieces, each piece is \<open>detection_format\<close> of four integers, a class name of \<open>id2label\<close>
  and the formatted score of a kept detection; and when no class name and no formatted float
  holds a newline, these pieces are the lines of the text.
\<close>

theorem detection_lines_match_format:
  assumes "Image_open_convert e p = Inr img"
    and "DetrImageProcessor_from_pretrained e ''facebook/detr-resnet-50'' = Inr pr"
    and "DetrForObjectDetection_from_pretrained e ''facebook/detr-resnet-50'' = Inr m"
    and "post_process_object_detection pr (forward m (detr_call pr img))
           [prod.swap (image_size img)] (9 / 10) = r # rs"
    and "detect_objects e p = Inr txt \<or> fst (ObjectDetectionTool_run e t p) = Inr txt"
  shows "\<exists>ls. txt = concat (map (\<lambda>l. l @ [CHR 0x0A]) ls) \<and>
           (\<forall>l\<in>set ls. \<exists>x1 y1 x2 y2 c s. c \<in> ran (id2label m) \<and> s \<in> set (scores r) \<and>
              l = detection_format x1 y1 x2 y2 c (float_format e s)) \<and>
           ((\<forall>c\<in>ran (id2label m). CHR 0x0A \<notin> set c) \<and>
            (\<forall>s. CHR 0x0A \<notin> set (float_format e s)) \<longrightarrow> lines_of txt = ls)"
proof -
  let ?zs = "zip (scores r) (zip (labels r) (boxes r))"
  let ?ls = "map (detection_line e m) ?zs"
  have loop: "detect_objects_loop e m '''' ?zs = Inr txt"
    using assms(5) detect_objects_steps [OF assms(1-4)]
      ObjectDetectionTool_run_steps [OF assms(1-4), of t] by auto
  have known: "\<forall>z\<in>set ?zs. id2label m (fst (snd z)) \<noteq> None"
    using detect_loop_Inr [OF loop] .
  have text_eq: "txt = concat (map (\<lambda>l. l @ [CHR 0x0A]) ?ls)"
    using detect_loop_text [OF loop] by (simp add: comp_def)
  have fmt: "\<exists>x1 y1 x2 y2 c s. c \<in> ran (id2label m) \<and> s \<in> set (scores r) \<and>
              l = detection_format x1 y1 x2 y2 c (float_format e s)" if "l \<in> set ?ls" for l
  proof -
    from that obtain z where z: "z \<in> set ?zs" and l: "l = detection_line e m z" by auto
    from detection_line_format [of m z e] known z
    obtain x1 y1 x2 y2 c where c: "id2label m (fst (snd z)) = Some c"
      and eq: "detection_line e m z = detection_format x1 y1 x2 y2 c (float_format e (fst z))"
      by blast
    have "c \<in> ran (id2label m)" using c by (auto simp: ran_def)
    moreover have "fst z \<in> set (scores r)" using z set_zip_leftD [of "fst z" "snd z" "scores r"] by simp
    ultimately show ?thesis using l eq by blast
  qed
  have lines: "lines_of txt = ?ls"
    if "(\<forall>c\<in>ran (id2label m). CHR 0x0A \<notin> set c) \<and> (\<forall>s. CHR 0x0A \<notin> set (float_format e s))"
  proof -
    have "\<forall>l\<in>set ?ls. CHR 0x0A \<notin> set l"
      using that detection_line_no_newline [of m e] by auto
    then show ?thesis unfolding text_eq by (rule lines_of_concat)
  qed
  show ?thesis using text_eq fmt lines by blast
qed

theorem detection_lines_match_format_witness:
  "\<exists>ls. detect_objects demo_env ''traffic.jpg'' = Inr (concat (map (\<lambda>l. l @ [CHR 0x0A]) ls)) \<and>
      lines_of (''[12, 30, 200, 180] car 0.998'' @ [CHR 0x0A] @
                ''[0, 5, 50, 60] cat 0.95'' @ [CHR 0x0A]) = ls"
  using detection_lines_match_format [OF demo_steps(1) demo_steps(2) demo_steps(3)
      demo_post_process disjI1 [OF demo_detect_objects]]
    demo_labels_no_newline demo_float_no_newline demo_detect_objects
  by auto

text \<open>
  Claim C6. The lines come in the order of the post-processed result, with no sorting: the
  text is the concatenation of the lines of the zipped (score, label, box) triples in their
  order, and line \<open>i\<close> of the text is the line of triple \<open>i\<close>.
\<close>

theorem detection_lines_in_model_order:
  assumes "Image_open_convert e p = Inr img"
    and "DetrImageProcessor_from_pretrained e ''facebook/detr-resnet-50'' = Inr pr"
    and "DetrForObjectDetection_from_pretrained e ''facebook/detr-resnet-50'' = Inr m"
    and "post_process_object_detection pr (forward m (detr_call pr img))
           [prod.swap (image_size img)] (9 / 10) = r # rs"
    and "zs = zip (scores r) (zip (labels r) (boxes r))"
    and "detect_objects e p = Inr txt \<or> fst (ObjectDetectionTool_run e t p) = Inr txt"
  shows "txt = concat (map (\<lambda>z. detection_line e m z @ [CHR 0x0A]) zs) \<and>
         ((\<forall>c\<in>ran (id2label m). CHR 0x0A \<notin> set c) \<and>
          (\<forall>s. CHR 0x0A \<notin> set (float_format e s)) \<longrightarrow>
            length (lines_of txt) = length zs \<and>
            (\<forall>i<length zs. lines_of txt ! i = detection_line e m (zs ! i)))"
proof -
  have loop: "detect_objects_loop e m '''' zs = Inr txt"
    using assms(6) detect_objects_steps [OF assms(1-4)]
      ObjectDetectionTool_run_steps [OF assms(1-4), of t] assms(5) by auto
  have text_eq: "txt = concat (map (\<lambda>z. detection_line e m z @ [CHR 0x0A]) zs)"
    using detect_loop_text [OF loop] by simp
  have "lines_of txt = map (detection_line e m) zs"
    if "(\<forall>c\<in>ran (id2label m). CHR 0x0A \<notin> set c) \<and> (\<forall>s. CHR 0x0A \<notin> set (float_format e s))"
  proof -
    have nl: "\<forall>l\<in>set (map (detection_line e m) zs). CHR 0x0A \<notin> set l"
      using that detection_line_no_newline [of m e] by auto
    have "txt = concat (map (\<lambda>l. l @ [CHR 0x0A]) (map (detection_line e m) zs))"
      using text_eq by (simp add: comp_def)
    then show ?thesis using lines_of_concat [OF nl] by simp
  qed
  then show ?thesis using text_eq by simp
qed

theorem detection_lines_in_model_order_witness:
  "length (lines_of (''[12, 30, 200, 180] car 0.998'' @ [CHR 0x0A] @
                     ''[0, 5, 50, 60] cat 0.95'' @ [CHR 0x0A])) = 2 \<and>
   lines_of (''[12, 30, 200, 180] car 0.998'' @ [CHR 0x0A] @
             ''[0, 5, 50, 60] cat 0.95'' @ [CHR 0x0A]) ! 0 =
     detection_line demo_env demo_detr_model
       (998 / 1000, 3, (127 / 10, 303 / 10, 2009 / 10, 180)) \<and>
   lines_of (''[12, 30, 200, 180] car 0.998'' @ [CHR 0x0A] @
             ''[0, 5, 50, 60] cat 0.95'' @ [CHR 0x0A]) ! 1 =
     detection_line demo_env demo_detr_model
       (95 / 100, 17, (- (1 / 2), 5, 101 / 2, 60))"
proof -
  let ?zs = "zip (scores demo_results) (zip (labels demo_results) (boxes demo_results))"
  let ?T = "''[12, 30, 200, 180] car 0.998'' @ [CHR 0x0A] @
            ''[0, 5, 50, 60] cat 0.95'' @ [CHR 0x0A]"
  have zs: "?zs = [(998 / 1000, 3, (127 / 10, 303 / 10, 2009 / 10, 180)),
                   (95 / 100, 17, (- (1 / 2), 5, 101 / 2, 60))]"
    by (simp add: demo_results_def)
  have "length (lines_of ?T) = length ?zs \<and>
        (\<forall>i<length ?zs. lines_of ?T ! i = detection_line demo_env demo_detr_model (?zs ! i))"
    using detection_lines_in_model_order [OF demo_steps(1) demo_steps(2) demo_steps(3)
        demo_post_process refl disjI1 [OF demo_detect_objects]]
      demo_labels_no_newline demo_float_no_newline
    by blast
  then have "length (lines_of ?T) = 2 \<and>
        lines_of ?T ! 0 = detection_line demo_env demo_detr_model (?zs ! 0) \<and>
        lines_of ?T ! 1 = detection_line demo_env demo_detr_model (?zs ! 1)"
    unfolding zs by simp
  then show ?thesis unfolding zs by simp
qed

text \<open>
  Claim C9. When the post-processed result holds no detection, the wrappers return the empty
  string. When it holds one or more, any text they return is non-empty and ends in a newline,
  one newline closing each detection line; and they do return a text when every label is a
  key of \<open>id2label\<close>.
\<close>

theorem detection_text_empty_or_newline_terminated:
  assumes "Image_open_convert e p = Inr img"
    and "DetrImageProcessor_from_pretrained e ''facebook/detr-resnet-50'' = Inr pr"
    and "DetrForObjectDetection_from_pretrained e ''facebook/detr-resnet-50'' = Inr m"
    and "post_process_object_detection pr (forward m (detr_call pr img))
           [prod.swap (image_size img)] (9 / 10) = r # rs"
    and "zs = zip (scores r) (zip (labels r) (boxes r))"
  shows "(zs = [] \<longrightarrow>
            detect_objects e p = Inr '''' \<and> fst (ObjectDetectionTool_run e t p) = Inr '''') \<and>
         (zs \<noteq> [] \<longrightarrow>
            (\<forall>txt. detect_objects e p = Inr txt \<or> fst (ObjectDetectionTool_run e t p) = Inr txt
               \<longrightarrow> txt \<noteq> '''' \<and> last txt = CHR 0x0A \<and>
                   txt = concat (map (\<lambda>z. detection_line e m z @ [CHR 0x0A]) zs)) \<and>
            ((\<forall>z\<in>set zs. id2label m (fst (snd z)) \<noteq> None) \<longrightarrow>
               (\<exists>txt. detect_objects e p = Inr txt \<and>
                      fst (ObjectDetectionTool_run e t p) = Inr txt)))"
proof -
  have d: "detect_objects e p = detect_objects_loop e m '''' zs"
    using detect_objects_steps [OF assms(1-4)] assms(5) by simp
  have o: "fst (ObjectDetectionTool_run e t p) = detect_objects_loop e m '''' zs"
    using ObjectDetectionTool_run_steps [OF assms(1-4), of t] assms(5) by simp
  have empty: "detect_objects_loop e m '''' zs = Inr ''''" if "zs = []"
    using that by simp
  have nonempty: "out \<noteq> '''' \<and> last out = CHR 0x0A \<and>
      out = concat (map (\<lambda>z. detection_line e m z @ [CHR 0x0A]) zs)"
    if "zs \<noteq> []" and "detect_objects_loop e m '''' zs = Inr out" for out
  proof -
    have text_eq: "out = concat (map (\<lambda>z. detection_line e m z @ [CHR 0x0A]) zs)"
      using detect_loop_text [OF that(2)] by simp
    from that(1) obtain ys y where zs: "zs = ys @ [y]" by (metis rev_exhaust)
    have "out = concat (map (\<lambda>z. detection_line e m z @ [CHR 0x0A]) ys) @
                  detection_line e m y @ [CHR 0x0A]"
      using text_eq zs by simp
    then have "out \<noteq> '''' \<and> last out = CHR 0x0A"
      by (metis append_assoc append_is_Nil_conv last_snoc not_Cons_self2)
    then show ?thesis using text_eq by simp
  qed
  have returns: "\<exists>txt. detect_objects_loop e m '''' zs = Inr txt"
    if "\<forall>z\<in>set zs. id2label m (fst (snd z)) \<noteq> None"
    using detect_loop_known [OF that] by simp
  show ?thesis unfolding d o using empty nonempty returns by blast
qed

theorem detection_text_empty_or_newline_terminated_witness:
  "detect_objects blank_env ''traffic.jpg'' = Inr '''' \<and>
   fst (ObjectDetectionTool_run blank_env ObjectDetectionTool ''traffic.jpg'') = Inr '''' \<and>
   (\<exists>out. detect_objects demo_env ''traffic.jpg'' = Inr out \<and> out \<noteq> '''' \<and>
      last out = CHR 0x0A)"
proof -
  have "detect_objects blank_env ''traffic.jpg'' = Inr '''' \<and>
        fst (ObjectDetectionTool_run blank_env ObjectDetectionTool ''traffic.jpg'') = Inr ''''"
    using detection_text_empty_or_newline_terminated [OF blank_steps(1) blank_steps(2)
        blank_steps(3) blank_post_process refl, of ObjectDetectionTool]
    by simp
  moreover have "zip (scores demo_results) (zip (labels demo_results) (boxes demo_results)) \<noteq> []"
    by (simp add: demo_results_def)
  then have "\<exists>out. detect_objects demo_env ''traffic.jpg'' = Inr out \<and> out \<noteq> '''' \<and>
      last out = CHR 0x0A"
    using detection_text_empty_or_newline_terminated [OF demo_steps(1) demo_steps(2)
        demo_steps(3) demo_post_process refl, of ObjectDetectionTool]
      demo_detect_objects
    by blast
  ultimately show ?thesis by blast
qed

section \<open>The captioning wrapper\<close>

text \<open>
  Claim C4. The caption is generated with a budget of 20 new tokens:
  \<^verbatim>\<open>ImageCaptionTool._run\<close> and \<^verbatim>\<open>get_image_caption\<close> call \<^verbatim>\<open>generate\<close> with
  \<^verbatim>\<open>max_new_tokens=20\<close> and return the decoding of its first row, so for a model that
  respects its budget the caption is the decoding of a row of at most 20 tokens after the
  decoder's prompt.
\<close>

theorem caption_within_token_budget:
  assumes "Image_open_convert e p = Inr img"
    and "BlipProcessor_from_pretrained e ''Salesforce/blip-image-captioning-large'' = Inr pr"
    and "BlipForConditionalGeneration_from_pretrained e
           ''Salesforce/blip-image-captioning-large'' = Inr m"
    and "to_device e ''cuda'' = None"
    and "generate m (blip_call pr img) 20 = row # rows"
    and "budget_respected m"
  shows "get_image_caption e p = Inr (decode pr row True) \<and>
         fst (ImageCaptionTool_run e t p) = Inr (decode pr row True) \<and>
         length row \<le> prompt_tokens m + 20"
proof -
  have "row \<in> set (generate m (blip_call pr img) 20)" using assms(5) by simp
  then have "length row \<le> prompt_tokens m + 20"
    using assms(6) unfolding budget_respected_def by blast
  then show ?thesis using get_image_caption_steps [OF assms(1-5), of t] by simp
qed

theorem caption_within_token_budget_witness:
  "get_image_caption demo_env ''traffic.jpg'' = Inr ''cars in traffic'' \<and>
   fst (ImageCaptionTool_run demo_env ImageCaptionTool ''traffic.jpg'') = Inr ''cars in traffic'' \<and>
   budget_respected demo_blip_model \<and>
   length [30522, 3765, 1999, 4026, 102 :: token] \<le> prompt_tokens demo_blip_model + 20"
  using caption_within_token_budget [OF demo_steps(1) demo_steps(4) demo_steps(5) demo_steps(6)
      demo_generate demo_budget_respected, of ImageCaptionTool]
    demo_budget_respected
  by (simp add: demo_decode)

text \<open>
  Claim C5 says that for every valid RGB image path the captioning wrapper returns a
  non-empty string of bounded length. It fails twice on a path that opens as an image: when
  \<^verbatim>\<open>from_pretrained\<close> raises, the wrapper raises and returns nothing; and when the
  model emits only special tokens, the wrapper returns the empty string, which it does not
  check for.
\<close>

theorem caption_nonempty_counterexample:
  "Image_open_convert offline_env ''traffic.jpg'' = Inr demo_image \<and>
   get_image_caption offline_env ''traffic.jpg'' = Inl (LoadError ''Connection error'') \<and>
   fst (ImageCaptionTool_run offline_env ImageCaptionTool ''traffic.jpg'') =
     Inl (LoadError ''Connection error'') \<and>
   Image_open_convert silent_env ''traffic.jpg'' = Inr demo_image \<and>
   get_image_caption silent_env ''traffic.jpg'' = Inr '''' \<and>
   fst (ImageCaptionTool_run silent_env ImageCaptionTool ''traffic.jpg'') = Inr ''''"
  by (simp add: offline_env_def silent_env_def demo_env_def get_image_caption_def
      ImageCaptionTool_run_def demo_blip_processor_def demo_special_def)

text \<open>
  Claim C5, amended. For a valid RGB image path, when the processor and the model load, the
  device is available and \<^verbatim>\<open>generate\<close> returns at least one row, the wrapper returns the
  decoding of the first row. With a model that respects its budget and a decoder that emits at
  most \<open>k\<close> characters per token, that string has at most \<open>k * (prompt_tokens + 20)\<close>
  characters. It may be empty.
\<close>

theorem caption_returned_and_bounded:
  assumes "Image_open_convert e p = Inr img"
    and "BlipProcessor_from_pretrained e ''Salesforce/blip-image-captioning-large'' = Inr pr"
    and "BlipForConditionalGeneration_from_pretrained e
           ''Salesforce/blip-image-captioning-large'' = Inr m"
    and "to_device e ''cuda'' = None"
    and "generate m (blip_call pr img) 20 = row # rows"
    and "budget_respected m"
    and "\<forall>toks. length (decode pr toks True) \<le> k * length toks"
  shows "\<exists>c. get_image_caption e p = Inr c \<and> fst (ImageCaptionTool_run e t p) = Inr c \<and>
           c = decode pr row True \<and> length c \<le> k * (prompt_tokens m + 20)"
proof -
  have "row \<in> set (generate m (blip_call pr img) 20)" using assms(5) by simp
  then have "length row \<le> prompt_tokens m + 20"
    using assms(6) unfolding budget_respected_def by blast
  then have "k * length row \<le> k * (prompt_tokens m + 20)" by simp
  moreover have "length (decode pr row True) \<le> k * length row" using assms(7) by blast
  ultimately have "length (decode pr row True) \<le> k * (prompt_tokens m + 20)" by linarith
  then show ?thesis using get_image_caption_steps [OF assms(1-5), of t] by simp
qed

theorem caption_returned_and_bounded_witness:
  "\<exists>c. get_image_caption demo_env ''traffic.jpg'' = Inr c \<and>
      fst (ImageCaptionTool_run demo_env ImageCaptionTool ''traffic.jpg'') = Inr c \<and>
      c = ''cars in traffic'' \<and> length c \<le> 8 * (prompt_tokens demo_blip_model + 20)"
  using caption_returned_and_bounded [OF demo_steps(1) demo_steps(4) demo_steps(5) demo_steps(6)
      demo_generate demo_budget_respected, of 8 ImageCaptionTool]
    demo_decode_bound
  by (simp add: demo_decode)

section \<open>The tool adapters\<close>

text \<open>
  Claim C3. \<^verbatim>\<open>ImageCaptionTool._arun\<close> and \<^verbatim>\<open>ObjectDetectionTool._arun\<close> fail on every
  input with \<open>NotImplementedError\<close>, Python's exception for an unsupported operation, and
  never return a value.
\<close>

theorem async_run_not_supported:
  "fst (ImageCaptionTool_arun t q) = Inl (NotImplementedError ''This tool does not support async'') \<and>
   fst (ObjectDetectionTool_arun t' q') = Inl (NotImplementedError ''This tool does not support async'') \<and>
   (\<forall>v. fst (ImageCaptionTool_arun t q) \<noteq> Inr v) \<and>
   (\<forall>v. fst (ObjectDetectionTool_arun t' q') \<noteq> Inr v)"
  by (simp add: ImageCaptionTool_arun_def ObjectDetectionTool_arun_def)

theorem async_run_not_supported_witness:
  "fst (ImageCaptionTool_arun ImageCaptionTool ''traffic.jpg'') =
     Inl (NotImplementedError ''This tool does not support async'') \<and>
   fst (ObjectDetectionTool_arun ObjectDetectionTool ''traffic.jpg'') =
     Inl (NotImplementedError ''This tool does not support async'')"
  using async_run_not_supported [of ImageCaptionTool "''traffic.jpg''" ObjectDetectionTool
      "''traffic.jpg''"]
  by simp

text \<open>
  Claim C7. A path that cannot be opened and converted to RGB makes the four functions fail
  with the \<open>DecodeError\<close> of the library's message, before anything is loaded. Every later
  failure is the result of the call as well, and nothing is caught or replaced by a value: a
  \<^verbatim>\<open>from_pretrained\<close> failure of a processor or a model gives \<open>LoadError\<close>, an unavailable
  device \<open>DeviceError\<close>, an empty batch from \<^verbatim>\<open>generate\<close> or from
  \<^verbatim>\<open>post_process_object_detection\<close> the \<open>IndexError\<close> of indexing it at 0, the first label
  outside \<open>id2label\<close> its \<open>KeyError\<close>, and an asynchronous call \<open>NotImplementedError\<close>.
  Conversely a wrapper returns a value only when every one of these steps succeeded, and then
  the value is the decoded first row, respectively the lines of the first result.
\<close>

theorem failures_propagate:
  "(Image_open_convert e p = Inl msg \<longrightarrow>
      get_image_caption e p = Inl (DecodeError msg) \<and>
      fst (ImageCaptionTool_run e t p) = Inl (DecodeError msg) \<and>
      detect_objects e p = Inl (DecodeError msg) \<and>
      fst (ObjectDetectionTool_run e t' p) = Inl (DecodeError msg)) \<and>
   (Image_open_convert e p = Inr img \<and>
    BlipProcessor_from_pretrained e ''Salesforce/blip-image-captioning-large'' = Inl msg \<longrightarrow>
      get_image_caption e p = Inl (LoadError msg) \<and>
      fst (ImageCaptionTool_run e t p) = Inl (LoadError msg)) \<and>
   (Image_open_convert e p = Inr img \<and>
    BlipProcessor_from_pretrained e ''Salesforce/blip-image-captioning-large'' = Inr bp \<and>
    BlipForConditionalGeneration_from_pretrained e ''Salesforce/blip-image-captioning-large'' =
      Inl msg \<longrightarrow>
      get_image_caption e p = Inl (LoadError msg) \<and>
      fst (ImageCaptionTool_run e t p) = Inl (LoadError msg)) \<and>
   (Image_open_convert e p = Inr img \<and>
    BlipProcessor_from_pretrained e ''Salesforce/blip-image-captioning-large'' = Inr bp \<and>
    BlipForConditionalGeneration_from_pretrained e ''Salesforce/blip-image-captioning-large'' =
      Inr bm \<and>
    to_device e ''cuda'' = Some msg \<longrightarrow>
      get_image_caption e p = Inl (DeviceError msg) \<and>
      fst (ImageCaptionTool_run e t p) = Inl (DeviceError msg)) \<and>
   (Image_open_convert e p = Inr img \<and>
    BlipProcessor_from_pretrained e ''Salesforce/blip-image-captioning-large'' = Inr bp \<and>
    BlipForConditionalGeneration_from_pretrained e ''Salesforce/blip-image-captioning-large'' =
      Inr bm \<and>
    to_device e ''cuda'' = None \<and>
    generate bm (blip_call bp img) 20 = [] \<longrightarrow>
      get_image_caption e p = Inl IndexError \<and>
      fst (ImageCaptionTool_run e t p) = Inl IndexError) \<and>
   (Image_open_convert e p = Inr img \<and>
    DetrImageProcessor_from_pretrained e ''facebook/detr-resnet-50'' = Inl msg \<longrightarrow>
      detect_objects e p = Inl (LoadError msg) \<and>
      fst (ObjectDetectionTool_run e t' p) = Inl (LoadError msg)) \<and>
   (Image_open_convert e p = Inr img \<and>
    DetrImageProcessor_from_pretrained e ''facebook/detr-resnet-50'' = Inr dp \<and>
    DetrForObjectDetection_from_pretrained e ''facebook/detr-resnet-50'' = Inl msg \<longrightarrow>
      detect_objects e p = Inl (LoadError msg) \<and>
      fst (ObjectDetectionTool_run e t' p) = Inl (LoadError msg)) \<and>
   (Image_open_convert e p = Inr img \<and>
    DetrImageProcessor_from_pretrained e ''facebook/detr-resnet-50'' = Inr dp \<and>
    DetrForObjectDetection_from_pretrained e ''facebook/detr-resnet-50'' = Inr dm \<and>
    post_process_object_detection dp (forward dm (detr_call dp img))
      [prod.swap (image_size img)] (9 / 10) = [] \<longrightarrow>
      detect_objects e p = Inl IndexError \<and>
      fst (ObjectDetectionTool_run e t' p) = Inl IndexError) \<and>
   (Image_open_convert e p = Inr img \<and>
    DetrImageProcessor_from_pretrained e ''facebook/detr-resnet-50'' = Inr dp \<and>
    DetrForObjectDetection_from_pretrained e ''facebook/detr-resnet-50'' = Inr dm \<and>
    post_process_object_detection dp (forward dm (detr_call dp img))
      [prod.swap (image_size img)] (9 / 10) = r # rs \<and>
    zip (scores r) (zip (labels r) (boxes r)) = pre @ (s, l, b) # rest \<and>
    (\<forall>z\<in>set pre. id2label dm (fst (snd z)) \<noteq> None) \<and> id2label dm l = None \<longrightarrow>
      detect_objects e p = Inl (KeyError l) \<and>
      fst (ObjectDetectionTool_run e t' p) = Inl (KeyError l)) \<and>
   (get_image_caption e p = Inr c \<or> fst (ImageCaptionTool_run e t p) = Inr c \<longrightarrow>
      (\<exists>i b m row rows. Image_open_convert e p = Inr i \<and>
         BlipProcessor_from_pretrained e ''Salesforce/blip-image-captioning-large'' = Inr b \<and>
         BlipForConditionalGeneration_from_pretrained e ''Salesforce/blip-image-captioning-large'' =
           Inr m \<and>
         to_device e ''cuda'' = None \<and>
         generate m (blip_call b i) 20 = row # rows \<and> c = decode b row True)) \<and>
   (detect_objects e p = Inr d \<or> fst (ObjectDetectionTool_run e t' p) = Inr d \<longrightarrow>
      (\<exists>i b m r rs. Image_open_convert e p = Inr i \<and>
         DetrImageProcessor_from_pretrained e ''facebook/detr-resnet-50'' = Inr b \<and>
         DetrForObjectDetection_from_pretrained e ''facebook/detr-resnet-50'' = Inr m \<and>
         post_process_object_detection b (forward m (detr_call b i))
           [prod.swap (image_size i)] (9 / 10) = r # rs \<and>
         (\<forall>z\<in>set (zip (scores r) (zip (labels r) (boxes r))).
            id2label m (fst (snd z)) \<noteq> None) \<and>
         d = concat (map (\<lambda>z. detection_line e m z @ [CHR 0x0A])
               (zip (scores r) (zip (labels r) (boxes r)))))) \<and>
   fst (ImageCaptionTool_arun t q) = Inl (NotImplementedError ''This tool does not support async'') \<and>
   fst (ObjectDetectionTool_arun t' q) = Inl (NotImplementedError ''This tool does not support async'')"
proof -
  have cap: "fst (ImageCaptionTool_run e t p) = get_image_caption e p"
    by (rule ImageCaptionTool_run_fst)
  have det: "fst (ObjectDetectionTool_run e t' p) = detect_objects e p"
    by (rule ObjectDetectionTool_run_fst)
  have a: "Image_open_convert e p = Inl msg \<longrightarrow>
      get_image_caption e p = Inl (DecodeError msg) \<and> detect_objects e p = Inl (DecodeError msg)"
    by (simp add: get_image_caption_def detect_objects_def)
  have b1: "Image_open_convert e p = Inr img \<and>
    BlipProcessor_from_pretrained e ''Salesforce/blip-image-captioning-large'' = Inl msg \<longrightarrow>
      get_image_caption e p = Inl (LoadError msg)"
    by (simp add: get_image_caption_def Let_def)
  have b2: "Image_open_convert e p = Inr img \<and>
    BlipProcessor_from_pretrained e ''Salesforce/blip-image-captioning-large'' = Inr bp \<and>
    BlipForConditionalGeneration_from_pretrained e ''Salesforce/blip-image-captioning-large'' =
      Inl msg \<longrightarrow> get_image_caption e p = Inl (LoadError msg)"
    by (simp add: get_image_caption_def Let_def)
  have b3: "Image_open_convert e p = Inr img \<and>
    BlipProcessor_from_pretrained e ''Salesforce/blip-image-captioning-large'' = Inr bp \<and>
    BlipForConditionalGeneration_from_pretrained e ''Salesforce/blip-image-captioning-large'' =
      Inr bm \<and>
    to_device e ''cuda'' = Some msg \<longrightarrow> get_image_caption e p = Inl (DeviceError msg)"
    by (simp add: get_image_caption_def Let_def)
  have b4: "Image_open_convert e p = Inr img \<and>
    BlipProcessor_from_pretrained e ''Salesforce/blip-image-captioning-large'' = Inr bp \<and>
    BlipForConditionalGeneration_from_pretrained e ''Salesforce/blip-image-captioning-large'' =
      Inr bm \<and>
    to_device e ''cuda'' = None \<and>
    generate bm (blip_call bp img) 20 = [] \<longrightarrow> get_image_caption e p = Inl IndexError"
    by (simp add: get_image_caption_def Let_def)
  have d1: "Image_open_convert e p = Inr img \<and>
    DetrImageProcessor_from_pretrained e ''facebook/detr-resnet-50'' = Inl msg \<longrightarrow>
      detect_objects e p = Inl (LoadError msg)"
    by (simp add: detect_objects_def)
  have d2: "Image_open_convert e p = Inr img \<and>
    DetrImageProcessor_from_pretrained e ''facebook/detr-resnet-50'' = Inr dp \<and>
    DetrForObjectDetection_from_pretrained e ''facebook/detr-resnet-50'' = Inl msg \<longrightarrow>
      detect_objects e p = Inl (LoadError msg)"
    by (simp add: detect_objects_def)
  have d3: "Image_open_convert e p = Inr img \<and>
    DetrImageProcessor_from_pretrained e ''facebook/detr-resnet-50'' = Inr dp \<and>
    DetrForObjectDetection_from_pretrained e ''facebook/detr-resnet-50'' = Inr dm \<and>
    post_process_object_detection dp (forward dm (detr_call dp img))
      [prod.swap (image_size img)] (9 / 10) = [] \<longrightarrow>
      detect_objects e p = Inl IndexError"
    by (simp add: detect_objects_def)
  have d4: "Image_open_convert e p = Inr img \<and>
    DetrImageProcessor_from_pretrained e ''facebook/detr-resnet-50'' = Inr dp \<and>
    DetrForObjectDetection_from_pretrained e ''facebook/detr-resnet-50'' = Inr dm \<and>
    post_process_object_detection dp (forward dm (detr_call dp img))
      [prod.swap (image_size img)] (9 / 10) = r # rs \<and>
    zip (scores r) (zip (labels r) (boxes r)) = pre @ (s, l, b) # rest \<and>
    (\<forall>z\<in>set pre. id2label dm (fst (snd z)) \<noteq> None) \<and> id2label dm l = None \<longrightarrow>
      detect_objects e p = Inl (KeyError l)"
  proof
    assume h: "Image_open_convert e p = Inr img \<and>
      DetrImageProcessor_from_pretrained e ''facebook/detr-resnet-50'' = Inr dp \<and>
      DetrForObjectDetection_from_pretrained e ''facebook/detr-resnet-50'' = Inr dm \<and>
      post_process_object_detection dp (forward dm (detr_call dp img))
        [prod.swap (image_size img)] (9 / 10) = r # rs \<and>
      zip (scores r) (zip (labels r) (boxes r)) = pre @ (s, l, b) # rest \<and>
      (\<forall>z\<in>set pre. id2label dm (fst (snd z)) \<noteq> None) \<and> id2label dm l = None"
    then have "detect_objects e p = detect_objects_loop e dm '''' (pre @ (s, l, b) # rest)"
      using detect_objects_steps [of e p img dp dm r rs] by simp
    then show "detect_objects e p = Inl (KeyError l)"
      using h detect_loop_KeyError [of pre dm l e "''''" s b rest] by simp
  qed
  have c_ok: "get_image_caption e p = Inr c \<longrightarrow>
      (\<exists>i b m row rows. Image_open_convert e p = Inr i \<and>
         BlipProcessor_from_pretrained e ''Salesforce/blip-image-captioning-large'' = Inr b \<and>
         BlipForConditionalGeneration_from_pretrained e ''Salesforce/blip-image-captioning-large'' =
           Inr m \<and>
         to_device e ''cuda'' = None \<and>
         generate m (blip_call b i) 20 = row # rows \<and> c = decode b row True)"
    using get_image_caption_Inr [of e p c] by blast
  have d_ok: "detect_objects e p = Inr d \<longrightarrow>
      (\<exists>i b m r rs. Image_open_convert e p = Inr i \<and>
         DetrImageProcessor_from_pretrained e ''facebook/detr-resnet-50'' = Inr b \<and>
         DetrForObjectDetection_from_pretrained e ''facebook/detr-resnet-50'' = Inr m \<and>
         post_process_object_detection b (forward m (detr_call b i))
           [prod.swap (image_size i)] (9 / 10) = r # rs \<and>
         (\<forall>z\<in>set (zip (scores r) (zip (labels r) (boxes r))).
            id2label m (fst (snd z)) \<noteq> None) \<and>
         d = concat (map (\<lambda>z. detection_line e m z @ [CHR 0x0A])
               (zip (scores r) (zip (labels r) (boxes r)))))"
    using detect_objects_Inr [of e p d] by blast
  have ar: "fst (ImageCaptionTool_arun t q) =
        Inl (NotImplementedError ''This tool does not support async'') \<and>
      fst (ObjectDetectionTool_arun t' q) =
        Inl (NotImplementedError ''This tool does not support async'')"
    by (simp add: ImageCaptionTool_arun_def ObjectDetectionTool_arun_def)
  have k1: "(Image_open_convert e p = Inl msg \<longrightarrow>
      get_image_caption e p = Inl (DecodeError msg) \<and>
      fst (ImageCaptionTool_run e t p) = Inl (DecodeError msg) \<and>
      detect_objects e p = Inl (DecodeError msg) \<and>
      fst (ObjectDetectionTool_run e t' p) = Inl (DecodeError msg))"
    unfolding cap det using a by simp
  have k2: "(Image_open_convert e p = Inr img \<and>
    BlipProcessor_from_pretrained e ''Salesforce/blip-image-captioning-large'' = Inl msg \<longrightarrow>
      get_image_caption e p = Inl (LoadError msg) \<and>
      fst (ImageCaptionTool_run e t p) = Inl (LoadError msg))"
    unfolding cap det using b1 by simp
  have k3: "(Image_open_convert e p = Inr img \<and>
    BlipProcessor_from_pretrained e ''Salesforce/blip-image-captioning-large'' = Inr bp \<and>
    BlipForConditionalGeneration_from_pretrained e ''Salesforce/blip-image-captioning-large'' =
      Inl msg \<longrightarrow>
      get_image_caption e p = Inl (LoadError msg) \<and>
      fst (ImageCaptionTool_run e t p) = Inl (LoadError msg))"
    unfolding cap det using b2 by simp
  have k4: "(Image_open_convert e p = Inr img \<and>
    BlipProcessor_from_pretrained e ''Salesforce/blip-image-captioning-large'' = Inr bp \<and>
    BlipForConditionalGeneration_from_pretrained e ''Salesforce/blip-image-captioning-large'' =
      Inr bm \<and>
    to_device e ''cuda'' = Some msg \<longrightarrow>
      get_image_caption e p = Inl (DeviceError msg) \<and>
      fst (ImageCaptionTool_run e t p) = Inl (DeviceError msg))"
    unfolding cap det using b3 by simp
  have k5: "(Image_open_convert e p = Inr img \<and>
    BlipProcessor_from_pretrained e ''Salesforce/blip-image-captioning-large'' = Inr bp \<and>
    BlipForConditionalGeneration_from_pretrained e ''Salesforce/blip-image-captioning-large'' =
      Inr bm \<and>
    to_device e ''cuda'' = None \<and>
    generate bm (blip_call bp img) 20 = [] \<longrightarrow>
      get_image_caption e p = Inl IndexError \<and>
      fst (ImageCaptionTool_run e t p) = Inl IndexError)"
    unfolding cap det using b4 by simp
  have k6: "(Image_open_convert e p = Inr img \<and>
    DetrImageProcessor_from_pretrained e ''facebook/detr-resnet-50'' = Inl msg \<longrightarrow>
      detect_objects e p = Inl (LoadError msg) \<and>
      fst (ObjectDetectionTool_run e t' p) = Inl (LoadError msg))"
    unfolding cap det using d1 by simp
  have k7: "(Image_open_convert e p = Inr img \<and>
    DetrImageProcessor_from_pretrained e ''facebook/detr-resnet-50'' = Inr dp \<and>
    DetrForObjectDetection_from_pretrained e ''facebook/detr-resnet-50'' = Inl msg \<longrightarrow>
      detect_objects e p = Inl (LoadError msg) \<and>
      fst (ObjectDetectionTool_run e t' p) = Inl (LoadError msg))"
    unfolding cap det using d2 by simp
  have k8: "(Image_open_convert e p = Inr img \<and>
    DetrImageProcessor_from_pretrained e ''facebook/detr-resnet-50'' = Inr dp \<and>
    DetrForObjectDetection_from_pretrained e ''facebook/detr-resnet-50'' = Inr dm \<and>
    post_process_object_detection dp (forward dm (detr_call dp img))
      [prod.swap (image_size img)] (9 / 10) = [] \<longrightarrow>
      detect_objects e p = Inl IndexError \<and>
      fst (ObjectDetectionTool_run e t' p) = Inl IndexError)"
    unfolding cap det using d3 by simp
  have k9: "(Image_open_convert e p = Inr img \<and>
    DetrImageProcessor_from_pretrained e ''facebook/detr-resnet-50'' = Inr dp \<and>
    DetrForObjectDetection_from_pretrained e ''facebook/detr-resnet-50'' = Inr dm \<and>
    post_process_object_detection dp (forward dm (detr_call dp img))
      [prod.swap (image_size img)] (9 / 10) = r # rs \<and>
    zip (scores r) (zip (labels r) (boxes r)) = pre @ (s, l, b) # rest \<and>
    (\<forall>z\<in>set pre. id2label dm (fst (snd z)) \<noteq> None) \<and> id2label dm l = None \<longrightarrow>
      detect_objects e p = Inl (KeyError l) \<and>
      fst (ObjectDetectionTool_run e t' p) = Inl (KeyError l))"
    unfolding cap det using d4 by simp
  have k10: "(get_image_caption e p = Inr c \<or> fst (ImageCaptionTool_run e t p) = Inr c \<longrightarrow>
      (\<exists>i b m row rows. Image_open_convert e p = Inr i \<and>
         BlipProcessor_from_pretrained e ''Salesforce/blip-image-captioning-large'' = Inr b \<and>
         BlipForConditionalGeneration_from_pretrained e ''Salesforce/blip-image-captioning-large'' =
           Inr m \<and>
         to_device e ''cuda'' = None \<and>
         generate m (blip_call b i) 20 = row # rows \<and> c = decode b row True))"
    unfolding cap det using c_ok by simp
  have k11: "(detect_objects e p = Inr d \<or> fst (ObjectDetectionTool_run e t' p) = Inr d \<longrightarrow>
      (\<exists>i b m r rs. Image_open_convert e p = Inr i \<and>
         DetrImageProcessor_from_pretrained e ''facebook/detr-resnet-50'' = Inr b \<and>
         DetrForObjectDetection_from_pretrained e ''facebook/detr-resnet-50'' = Inr m \<and>
         post_process_object_detection b (forward m (detr_call b i))
           [prod.swap (image_size i)] (9 / 10) = r # rs \<and>
         (\<forall>z\<in>set (zip (scores r) (zip (labels r) (boxes r))).
            id2label m (fst (snd z)) \<noteq> None) \<and>
         d = concat (map (\<lambda>z. detection_line e m z @ [CHR 0x0A])
               (zip (scores r) (zip (labels r) (boxes r))))))"
    unfolding cap det using d_ok by simp
  have k12: "fst (ImageCaptionTool_arun t q) = Inl (NotImplementedError ''This tool does not support async'')"
    unfolding cap det using ar by simp
  have k13: "fst (ObjectDetectionTool_arun t' q) = Inl (NotImplementedError ''This tool does not support async'')"
    unfolding cap det using ar by simp
  show ?thesis
    using k1 k2 k3 k4 k5 k6 k7 k8 k9 k10 k11 k12 k13
    by - (intro conjI; assumption)
qed

theorem failures_propagate_witness:
  "get_image_caption demo_env ''missing.jpg'' = Inl (DecodeError ''No such file or directory'') \<and>
   fst (ImageCaptionTool_run demo_env ImageCaptionTool ''missing.jpg'') =
     Inl (DecodeError ''No such file or directory'') \<and>
   detect_objects demo_env ''missing.jpg'' = Inl (DecodeError ''No such file or directory'') \<and>
   fst (ObjectDetectionTool_run demo_env ObjectDetectionTool ''missing.jpg'') =
     Inl (DecodeError ''No such file or directory'') \<and>
   get_image_caption offline_env ''traffic.jpg'' = Inl (LoadError ''Connection error'') \<and>
   detect_objects offline_env ''traffic.jpg'' = Inl (LoadError ''Connection error'') \<and>
   fst (ImageCaptionTool_run model_offline_env ImageCaptionTool ''traffic.jpg'') =
     Inl (LoadError ''Connection error'') \<and>
   fst (ObjectDetectionTool_run model_offline_env ObjectDetectionTool ''traffic.jpg'') =
     Inl (LoadError ''Connection error'') \<and>
   get_image_caption cpu_only_env ''traffic.jpg'' =
     Inl (DeviceError ''Torch not compiled with CUDA enabled'') \<and>
   get_image_caption norows_env ''traffic.jpg'' = Inl IndexError \<and>
   fst (ObjectDetectionTool_run norows_env ObjectDetectionTool ''traffic.jpg'') = Inl IndexError \<and>
   detect_objects unlabelled_env ''traffic.jpg'' = Inl (KeyError 17) \<and>
   fst (ObjectDetectionTool_run unlabelled_env ObjectDetectionTool ''traffic.jpg'') =
     Inl (KeyError 17) \<and>
   (\<exists>i b m row rows. Image_open_convert demo_env ''traffic.jpg'' = Inr i \<and>
      BlipProcessor_from_pretrained demo_env ''Salesforce/blip-image-captioning-large'' = Inr b \<and>
      BlipForConditionalGeneration_from_pretrained demo_env
        ''Salesforce/blip-image-captioning-large'' = Inr m \<and>
      to_device demo_env ''cuda'' = None \<and>
      generate m (blip_call b i) 20 = row # rows \<and> ''cars in traffic'' = decode b row True)"
proof -
  note missing = failures_propagate [where e = demo_env and p = "''missing.jpg''"
      and msg = "''No such file or directory''" and t = ImageCaptionTool
      and t' = ObjectDetectionTool]
  note offline = failures_propagate [where e = offline_env and p = "''traffic.jpg''"
      and msg = "''Connection error''" and img = demo_image and t = ImageCaptionTool
      and t' = ObjectDetectionTool]
  note model_offline = failures_propagate [where e = model_offline_env
      and p = "''traffic.jpg''" and msg = "''Connection error''" and img = demo_image
      and bp = demo_blip_processor and dp = demo_detr_processor and t = ImageCaptionTool
      and t' = ObjectDetectionTool]
  note cpu_only = failures_propagate [where e = cpu_only_env and p = "''traffic.jpg''"
      and msg = "''Torch not compiled with CUDA enabled''" and img = demo_image
      and bp = demo_blip_processor and bm = demo_blip_model]
  note norows = failures_propagate [where e = norows_env and p = "''traffic.jpg''"
      and img = demo_image and bp = demo_blip_processor
      and bm = "\<lparr>generate = (\<lambda>inp n. []), prompt_tokens = 1\<rparr>"
      and dp = "\<lparr>detr_call = (\<lambda>img. map real (pixels img)),
                 post_process_object_detection = (\<lambda>outs sizes t. [])\<rparr>"
      and dm = demo_detr_model and t' = ObjectDetectionTool]
  note unlabelled = failures_propagate [where e = unlabelled_env and p = "''traffic.jpg''"
      and img = demo_image and dp = demo_detr_processor and dm = unlabelled_detr_model
      and r = demo_results and rs = "[]"
      and pre = "[(998 / 1000, 3, (127 / 10, 303 / 10, 2009 / 10, 180))]"
      and s = "95 / 100" and l = 17 and b = "(- (1 / 2), 5, 101 / 2, 60)" and rest = "[]"
      and t' = ObjectDetectionTool]
  note returns = failures_propagate [where e = demo_env and p = "''traffic.jpg''"
      and c = "''cars in traffic''" and t = ImageCaptionTool]
  have cap: "get_image_caption demo_env ''traffic.jpg'' = Inr ''cars in traffic''"
    by (simp add: get_image_caption_def demo_steps demo_generate demo_decode)
  have w1: "get_image_caption demo_env ''missing.jpg'' = Inl (DecodeError ''No such file or directory'')"
    using missing [THEN conjunct1] demo_missing_file by simp
  have w2: "fst (ImageCaptionTool_run demo_env ImageCaptionTool ''missing.jpg'') =
     Inl (DecodeError ''No such file or directory'')"
    using missing [THEN conjunct1] demo_missing_file by simp
  have w3: "detect_objects demo_env ''missing.jpg'' = Inl (DecodeError ''No such file or directory'')"
    using missing [THEN conjunct1] demo_missing_file by simp
  have w4: "fst (ObjectDetectionTool_run demo_env ObjectDetectionTool ''missing.jpg'') =
     Inl (DecodeError ''No such file or directory'')"
    using missing [THEN conjunct1] demo_missing_file by simp
  have w5: "get_image_caption offline_env ''traffic.jpg'' = Inl (LoadError ''Connection error'')"
    using offline [THEN conjunct2, THEN conjunct1] offline_steps by simp
  have w6: "detect_objects offline_env ''traffic.jpg'' = Inl (LoadError ''Connection error'')"
    using offline [THEN conjunct2, THEN conjunct2, THEN conjunct2, THEN conjunct2, THEN conjunct2, THEN conjunct1] offline_steps by simp
  have w7: "fst (ImageCaptionTool_run model_offline_env ImageCaptionTool ''traffic.jpg'') =
     Inl (LoadError ''Connection error'')"
    using model_offline [THEN conjunct2, THEN conjunct2, THEN conjunct1] model_offline_steps by simp
  have w8: "fst (ObjectDetectionTool_run model_offline_env ObjectDetectionTool ''traffic.jpg'') =
     Inl (LoadError ''Connection error'')"
    using model_offline [THEN conjunct2, THEN conjunct2, THEN conjunct2, THEN conjunct2, THEN conjunct2, THEN conjunct2, THEN conjunct1] model_offline_steps by simp
  have w9: "get_image_caption cpu_only_env ''traffic.jpg'' =
     Inl (DeviceError ''Torch not compiled with CUDA enabled'')"
    using cpu_only [THEN conjunct2, THEN conjunct2, THEN conjunct2, THEN conjunct1] cpu_only_steps by simp
  have w10: "get_image_caption norows_env ''traffic.jpg'' = Inl IndexError"
    using norows [THEN conjunct2, THEN conjunct2, THEN conjunct2, THEN conjunct2, THEN conjunct1] norows_steps by simp
  have w11: "fst (ObjectDetectionTool_run norows_env ObjectDetectionTool ''traffic.jpg'') = Inl IndexError"
    using norows [THEN conjunct2, THEN conjunct2, THEN conjunct2, THEN conjunct2, THEN conjunct2, THEN conjunct2, THEN conjunct2, THEN conjunct1] norows_steps by simp
  have w12: "detect_objects unlabelled_env ''traffic.jpg'' = Inl (KeyError 17)"
    using unlabelled [THEN conjunct2, THEN conjunct2, THEN conjunct2, THEN conjunct2, THEN conjunct2, THEN conjunct2, THEN conjunct2, THEN conjunct2, THEN conjunct1] unlabelled_steps demo_post_process demo_results_zip unlabelled_id2label by simp
  have w13: "fst (ObjectDetectionTool_run unlabelled_env ObjectDetectionTool ''traffic.jpg'') =
     Inl (KeyError 17)"
    using unlabelled [THEN conjunct2, THEN conjunct2, THEN conjunct2, THEN conjunct2, THEN conjunct2, THEN conjunct2, THEN conjunct2, THEN conjunct2, THEN conjunct1] unlabelled_steps demo_post_process demo_results_zip unlabelled_id2label by simp
  have w14: "\<exists>i b m row rows. Image_open_convert demo_env ''traffic.jpg'' = Inr i \<and>
      BlipProcessor_from_pretrained demo_env ''Salesforce/blip-image-captioning-large'' = Inr b \<and>
      BlipForConditionalGeneration_from_pretrained demo_env
        ''Salesforce/blip-image-captioning-large'' = Inr m \<and>
      to_device demo_env ''cuda'' = None \<and>
      generate m (blip_call b i) 20 = row # rows \<and> ''cars in traffic'' = decode b row True"
    using returns [THEN conjunct2, THEN conjunct2, THEN conjunct2, THEN conjunct2, THEN conjunct2, THEN conjunct2, THEN conjunct2, THEN conjunct2, THEN conjunct2, THEN conjunct1] cap by simp
  show ?thesis
    using w1 w2 w3 w4 w5 w6 w7 w8 w9 w10 w11 w12 w13 w14
    by - (intro conjI; assumption)
qed

text \<open>
  Claim C8. A call of \<^verbatim>\<open>_run\<close> leaves the tool object as it was, and its result does not
  depend on the tool object. Nothing is kept from one call to the next: whatever an earlier
  call did, in whatever environment, a later call opens the image and loads the processor and
  the model again. It fails with \<open>LoadError\<close> when the processor or the model does not load
  then, and when they load its result is computed with the processor and the model loaded
  then. The result depends on the environment only through the library calls made for this
  path: two environments that agree on them give the same result.
\<close>

theorem run_is_stateless:
  "snd (ImageCaptionTool_run e t p) = t \<and>
   snd (ObjectDetectionTool_run e t p) = t \<and>
   fst (ImageCaptionTool_run e t p) = fst (ImageCaptionTool_run e t' p) \<and>
   fst (ObjectDetectionTool_run e t p) = fst (ObjectDetectionTool_run e t' p) \<and>
   ImageCaptionTool_run e' (snd (ImageCaptionTool_run e t p)) p' = ImageCaptionTool_run e' t p' \<and>
   ObjectDetectionTool_run e' (snd (ObjectDetectionTool_run e t p)) p' =
     ObjectDetectionTool_run e' t p' \<and>
   (Image_open_convert e' p' = Inr img \<and>
    BlipProcessor_from_pretrained e' ''Salesforce/blip-image-captioning-large'' = Inl msg \<longrightarrow>
      fst (ImageCaptionTool_run e' (snd (ImageCaptionTool_run e t p)) p') = Inl (LoadError msg)) \<and>
   (Image_open_convert e' p' = Inr img \<and>
    BlipProcessor_from_pretrained e' ''Salesforce/blip-image-captioning-large'' = Inr bp \<and>
    BlipForConditionalGeneration_from_pretrained e' ''Salesforce/blip-image-captioning-large'' =
      Inl msg \<longrightarrow>
      fst (ImageCaptionTool_run e' (snd (ImageCaptionTool_run e t p)) p') = Inl (LoadError msg)) \<and>
   (Image_open_convert e' p' = Inr img \<and>
    BlipProcessor_from_pretrained e' ''Salesforce/blip-image-captioning-large'' = Inr bp \<and>
    BlipForConditionalGeneration_from_pretrained e' ''Salesforce/blip-image-captioning-large'' =
      Inr bm \<and>
    to_device e' ''cuda'' = None \<and>
    generate bm (blip_call bp img) 20 = row # rows \<longrightarrow>
      fst (ImageCaptionTool_run e' (snd (ImageCaptionTool_run e t p)) p') =
        Inr (decode bp row True)) \<and>
   (Image_open_convert e' p' = Inr img \<and>
    DetrImageProcessor_from_pretrained e' ''facebook/detr-resnet-50'' = Inl msg \<longrightarrow>
      fst (ObjectDetectionTool_run e' (snd (ObjectDetectionTool_run e t p)) p') =
        Inl (LoadError msg)) \<and>
   (Image_open_convert e' p' = Inr img \<and>
    DetrImageProcessor_from_pretrained e' ''facebook/detr-resnet-50'' = Inr dp \<and>
    DetrForObjectDetection_from_pretrained e' ''facebook/detr-resnet-50'' = Inl msg \<longrightarrow>
      fst (ObjectDetectionTool_run e' (snd (ObjectDetectionTool_run e t p)) p') =
        Inl (LoadError msg)) \<and>
   (Image_open_convert e' p' = Inr img \<and>
    DetrImageProcessor_from_pretrained e' ''facebook/detr-resnet-50'' = Inr dp \<and>
    DetrForObjectDetection_from_pretrained e' ''facebook/detr-resnet-50'' = Inr dm \<and>
    post_process_object_detection dp (forward dm (detr_call dp img))
      [prod.swap (image_size img)] (9 / 10) = r # rs \<longrightarrow>
      fst (ObjectDetectionTool_run e' (snd (ObjectDetectionTool_run e t p)) p') =
        ObjectDetectionTool_run_loop e' dm '''' (zip (scores r) (zip (labels r) (boxes r)))) \<and>
   (Image_open_convert e p = Image_open_convert e' p \<and>
    BlipProcessor_from_pretrained e ''Salesforce/blip-image-captioning-large'' =
      BlipProcessor_from_pretrained e' ''Salesforce/blip-image-captioning-large'' \<and>
    BlipForConditionalGeneration_from_pretrained e ''Salesforce/blip-image-captioning-large'' =
      BlipForConditionalGeneration_from_pretrained e' ''Salesforce/blip-image-captioning-large'' \<and>
    to_device e ''cuda'' = to_device e' ''cuda'' \<longrightarrow>
      fst (ImageCaptionTool_run e t p) = fst (ImageCaptionTool_run e' t' p)) \<and>
   (Image_open_convert e p = Image_open_convert e' p \<and>
    DetrImageProcessor_from_pretrained e ''facebook/detr-resnet-50'' =
      DetrImageProcessor_from_pretrained e' ''facebook/detr-resnet-50'' \<and>
    DetrForObjectDetection_from_pretrained e ''facebook/detr-resnet-50'' =
      DetrForObjectDetection_from_pretrained e' ''facebook/detr-resnet-50'' \<and>
    float_format e = float_format e' \<longrightarrow>
      fst (ObjectDetectionTool_run e t p) = fst (ObjectDetectionTool_run e' t' p))"
proof -
  have s1: "snd (ImageCaptionTool_run e t p) = t" by (rule ImageCaptionTool_run_self)
  have s2: "snd (ObjectDetectionTool_run e t p) = t" by (rule ObjectDetectionTool_run_self)
  have k1: "fst (ImageCaptionTool_run e t p) = fst (ImageCaptionTool_run e t' p)"
    by (rule ImageCaptionTool_run_any_self)
  have k2: "fst (ObjectDetectionTool_run e t p) = fst (ObjectDetectionTool_run e t' p)"
    by (rule ObjectDetectionTool_run_any_self)
  have k3: "Image_open_convert e' p' = Inr img \<and>
    BlipProcessor_from_pretrained e' ''Salesforce/blip-image-captioning-large'' = Inl msg \<longrightarrow>
      fst (ImageCaptionTool_run e' t p') = Inl (LoadError msg)"
    by (simp add: ImageCaptionTool_run_def Let_def)
  have k4: "Image_open_convert e' p' = Inr img \<and>
    BlipProcessor_from_pretrained e' ''Salesforce/blip-image-captioning-large'' = Inr bp \<and>
    BlipForConditionalGeneration_from_pretrained e' ''Salesforce/blip-image-captioning-large'' =
      Inl msg \<longrightarrow>
      fst (ImageCaptionTool_run e' t p') = Inl (LoadError msg)"
    by (simp add: ImageCaptionTool_run_def Let_def)
  have k5: "Image_open_convert e' p' = Inr img \<and>
    BlipProcessor_from_pretrained e' ''Salesforce/blip-image-captioning-large'' = Inr bp \<and>
    BlipForConditionalGeneration_from_pretrained e' ''Salesforce/blip-image-captioning-large'' =
      Inr bm \<and>
    to_device e' ''cuda'' = None \<and>
    generate bm (blip_call bp img) 20 = row # rows \<longrightarrow>
      fst (ImageCaptionTool_run e' t p') = Inr (decode bp row True)"
    by (simp add: ImageCaptionTool_run_def Let_def)
  have k6: "Image_open_convert e' p' = Inr img \<and>
    DetrImageProcessor_from_pretrained e' ''facebook/detr-resnet-50'' = Inl msg \<longrightarrow>
      fst (ObjectDetectionTool_run e' t p') = Inl (LoadError msg)"
    by (simp add: ObjectDetectionTool_run_def)
  have k7: "Image_open_convert e' p' = Inr img \<and>
    DetrImageProcessor_from_pretrained e' ''facebook/detr-resnet-50'' = Inr dp \<and>
    DetrForObjectDetection_from_pretrained e' ''facebook/detr-resnet-50'' = Inl msg \<longrightarrow>
      fst (ObjectDetectionTool_run e' t p') = Inl (LoadError msg)"
    by (simp add: ObjectDetectionTool_run_def)
  have k8: "Image_open_convert e' p' = Inr img \<and>
    DetrImageProcessor_from_pretrained e' ''facebook/detr-resnet-50'' = Inr dp \<and>
    DetrForObjectDetection_from_pretrained e' ''facebook/detr-resnet-50'' = Inr dm \<and>
    post_process_object_detection dp (forward dm (detr_call dp img))
      [prod.swap (image_size img)] (9 / 10) = r # rs \<longrightarrow>
      fst (ObjectDetectionTool_run e' t p') =
        ObjectDetectionTool_run_loop e' dm '''' (zip (scores r) (zip (labels r) (boxes r)))"
    by (simp add: ObjectDetectionTool_run_def)
  have k9: "Image_open_convert e p = Image_open_convert e' p \<and>
    BlipProcessor_from_pretrained e ''Salesforce/blip-image-captioning-large'' =
      BlipProcessor_from_pretrained e' ''Salesforce/blip-image-captioning-large'' \<and>
    BlipForConditionalGeneration_from_pretrained e ''Salesforce/blip-image-captioning-large'' =
      BlipForConditionalGeneration_from_pretrained e' ''Salesforce/blip-image-captioning-large'' \<and>
    to_device e ''cuda'' = to_device e' ''cuda'' \<longrightarrow>
      fst (ImageCaptionTool_run e t p) = fst (ImageCaptionTool_run e' t' p)"
    using ImageCaptionTool_run_same_calls [of e p e' t t'] by blast
  have k10: "Image_open_convert e p = Image_open_convert e' p \<and>
    DetrImageProcessor_from_pretrained e ''facebook/detr-resnet-50'' =
      DetrImageProcessor_from_pretrained e' ''facebook/detr-resnet-50'' \<and>
    DetrForObjectDetection_from_pretrained e ''facebook/detr-resnet-50'' =
      DetrForObjectDetection_from_pretrained e' ''facebook/detr-resnet-50'' \<and>
    float_format e = float_format e' \<longrightarrow>
      fst (ObjectDetectionTool_run e t p) = fst (ObjectDetectionTool_run e' t' p)"
    using ObjectDetectionTool_run_same_calls [of e p e' t t'] by blast
  show ?thesis
    unfolding s1 s2
    using k1 k2 k3 k4 k5 k6 k7 k8 k9 k10
    by - (intro conjI; (assumption | rule refl))
qed

theorem run_is_stateless_witness:
  "snd (ImageCaptionTool_run demo_env ImageCaptionTool ''traffic.jpg'') = ImageCaptionTool \<and>
   snd (ObjectDetectionTool_run demo_env ObjectDetectionTool ''traffic.jpg'') =
     ObjectDetectionTool \<and>
   fst (ImageCaptionTool_run silent_env ImageCaptionTool ''traffic.jpg'') = Inr '''' \<and>
   fst (ImageCaptionTool_run demo_env
          (snd (ImageCaptionTool_run silent_env ImageCaptionTool ''traffic.jpg'')) ''traffic.jpg'') =
     Inr ''cars in traffic'' \<and>
   fst (ImageCaptionTool_run offline_env
          (snd (ImageCaptionTool_run demo_env ImageCaptionTool ''traffic.jpg'')) ''traffic.jpg'') =
     Inl (LoadError ''Connection error'') \<and>
   fst (ImageCaptionTool_run model_offline_env
          (snd (ImageCaptionTool_run demo_env ImageCaptionTool ''traffic.jpg'')) ''traffic.jpg'') =
     Inl (LoadError ''Connection error'') \<and>
   fst (ObjectDetectionTool_run offline_env
          (snd (ObjectDetectionTool_run demo_env ObjectDetectionTool ''traffic.jpg''))
          ''traffic.jpg'') =
     Inl (LoadError ''Connection error'') \<and>
   fst (ObjectDetectionTool_run model_offline_env
          (snd (ObjectDetectionTool_run demo_env ObjectDetectionTool ''traffic.jpg''))
          ''traffic.jpg'') =
     Inl (LoadError ''Connection error'')"
proof -
  note fresh = run_is_stateless [where e = silent_env and e' = demo_env
      and p = "''traffic.jpg''" and p' = "''traffic.jpg''" and t = ImageCaptionTool
      and img = demo_image and bp = demo_blip_processor and bm = demo_blip_model
      and row = "[30522, 3765, 1999, 4026, 102]" and rows = "[]"]
  note offline = run_is_stateless [where e = demo_env and e' = offline_env
      and p = "''traffic.jpg''" and p' = "''traffic.jpg''" and img = demo_image
      and msg = "''Connection error''"]
  note model_offline = run_is_stateless [where e = demo_env and e' = model_offline_env
      and p = "''traffic.jpg''" and p' = "''traffic.jpg''" and img = demo_image
      and bp = demo_blip_processor and dp = demo_detr_processor
      and msg = "''Connection error''"]
  have w1: "snd (ImageCaptionTool_run demo_env ImageCaptionTool ''traffic.jpg'') = ImageCaptionTool"
    using offline [where t = ImageCaptionTool, THEN conjunct1]  by simp
  have w2: "snd (ObjectDetectionTool_run demo_env ObjectDetectionTool ''traffic.jpg'') =
     ObjectDetectionTool"
    using offline [where t = ObjectDetectionTool, THEN conjunct2, THEN conjunct1]  by simp
  have w3: "fst (ImageCaptionTool_run silent_env ImageCaptionTool ''traffic.jpg'') = Inr ''''"
    by (rule silent_caption)
  have w4: "fst (ImageCaptionTool_run demo_env
          (snd (ImageCaptionTool_run silent_env ImageCaptionTool ''traffic.jpg'')) ''traffic.jpg'') =
     Inr ''cars in traffic''"
    using fresh [THEN conjunct2, THEN conjunct2, THEN conjunct2, THEN conjunct2, THEN conjunct2, THEN conjunct2, THEN conjunct2, THEN conjunct2, THEN conjunct1] demo_steps demo_generate demo_decode by simp
  have w5: "fst (ImageCaptionTool_run offline_env
          (snd (ImageCaptionTool_run demo_env ImageCaptionTool ''traffic.jpg'')) ''traffic.jpg'') =
     Inl (LoadError ''Connection error'')"
    using offline [where t = ImageCaptionTool, THEN conjunct2, THEN conjunct2, THEN conjunct2, THEN conjunct2, THEN conjunct2, THEN conjunct2, THEN conjunct1] offline_steps by simp
  have w6: "fst (ImageCaptionTool_run model_offline_env
          (snd (ImageCaptionTool_run demo_env ImageCaptionTool ''traffic.jpg'')) ''traffic.jpg'') =
     Inl (LoadError ''Connection error'')"
    using model_offline [where t = ImageCaptionTool, THEN conjunct2, THEN conjunct2, THEN conjunct2, THEN conjunct2, THEN conjunct2, THEN conjunct2, THEN conjunct2, THEN conjunct1] model_offline_steps by simp
  have w7: "fst (ObjectDetectionTool_run offline_env
          (snd (ObjectDetectionTool_run demo_env ObjectDetectionTool ''traffic.jpg''))
          ''traffic.jpg'') =
     Inl (LoadError ''Connection error'')"
    using offline [where t = ObjectDetectionTool, THEN conjunct2, THEN conjunct2, THEN conjunct2, THEN conjunct2, THEN conjunct2, THEN conjunct2, THEN conjunct2, THEN conjunct2, THEN conjunct2, THEN conjunct1] offline_steps by simp
  have w8: "fst (ObjectDetectionTool_run model_offline_env
          (snd (ObjectDetectionTool_run demo_env ObjectDetectionTool ''traffic.jpg''))
          ''traffic.jpg'') =
     Inl (LoadError ''Connection error'')"
    using model_offline [where t = ObjectDetectionTool, THEN conjunct2, THEN conjunct2, THEN conjunct2, THEN conjunct2, THEN conjunct2, THEN conjunct2, THEN conjunct2, THEN conjunct2, THEN conjunct2, THEN conjunct2, THEN conjunct1] model_offline_steps by simp
  show ?thesis
    using w1 w2 w3 w4 w5 w6 w7 w8
    by - (intro conjI; assumption)
qed

text \<open>
  Claim C10. Each tool method computes the same result as its standalone helper:
  \<^verbatim>\<open>ImageCaptionTool._run\<close> as \<^verbatim>\<open>get_image_caption\<close>, and
  \<^verbatim>\<open>ObjectDetectionTool._run\<close> as \<^verbatim>\<open>detect_objects\<close>.
\<close>

theorem tool_methods_equal_helpers:
  "fst (ImageCaptionTool_run e t p) = get_image_caption e p \<and>
   fst (ObjectDetectionTool_run e t' p) = detect_objects e p"
  by (simp add: ImageCaptionTool_run_fst ObjectDetectionTool_run_fst)

theorem tool_methods_equal_helpers_witness:
  "fst (ImageCaptionTool_run demo_env ImageCaptionTool ''traffic.jpg'') = Inr ''cars in traffic'' \<and>
   get_image_caption demo_env ''traffic.jpg'' = Inr ''cars in traffic'' \<and>
   fst (ObjectDetectionTool_run demo_env ObjectDetectionTool ''traffic.jpg'') =
     Inr (''[12, 30, 200, 180] car 0.998'' @ [CHR 0x0A] @ ''[0, 5, 50, 60] cat 0.95'' @ [CHR 0x0A])"
proof -
  have "get_image_caption demo_env ''traffic.jpg'' = Inr ''cars in traffic''"
    by (simp add: get_image_caption_def demo_steps demo_generate demo_decode)
  then show ?thesis
    using tool_methods_equal_helpers [of demo_env ImageCaptionTool "''traffic.jpg''"
        ObjectDetectionTool] demo_detect_objects
    by simp
qed

end
